theory Spec2Isabelle
  imports Main "HOL-Library.Sublist" "HOL-Library.Word"
begin

section \<open>Container runtime resolution of act (pkg/container)\<close>

text \<open>
  The development embeds \<^verbatim>\<open>runtime_detector.go\<close>, \<^verbatim>\<open>factory.go\<close> and
  \<^verbatim>\<open>null_container.go\<close>. Everything the Go code asks of the operating system (the
  process environment, the file system, the executable search path, client creation and the
  daemon ping, the podman subprocesses) is a field of the record \<open>world\<close>: one call of the
  detector is evaluated against one snapshot of the host. Log output is not modelled.
\<close>

subsection \<open>Strings\<close>

definition nl :: char where
  "nl = CHR 0x0A"

definition backslash :: char where
  "backslash = CHR 0x5C"

text \<open>A string is a sequence of bytes. A byte is ASCII when it is below \<^verbatim>\<open>0x80\<close>
  (\<^verbatim>\<open>utf8.RuneSelf\<close>), that is, when its top bit is clear.\<close>

definition is_ascii :: "char \<Rightarrow> bool" where
  "is_ascii c = (\<not> digit7 c)"

text \<open>The lowering of an ASCII byte: the letters A to Z are mapped to a to z, every other
  byte is kept.\<close>

definition to_lower_char :: "char \<Rightarrow> char" where
  "to_lower_char c =
     (case map_of (zip ''ABCDEFGHIJKLMNOPQRSTUVWXYZ'' ''abcdefghijklmnopqrstuvwxyz'') c of
        None \<Rightarrow> c
      | Some l \<Rightarrow> l)"

text \<open>The ASCII white space of \<^verbatim>\<open>strings.TrimSpace\<close>: tab, line feed, vertical tab, form
  feed, carriage return and space.\<close>

definition is_space :: "char \<Rightarrow> bool" where
  "is_space c = (c \<in> set [CHR 0x09, CHR 0x0A, CHR 0x0B, CHR 0x0C, CHR 0x0D, CHR 0x20])"

text \<open>\<^verbatim>\<open>strings.HasPrefix(s, p)\<close> and \<^verbatim>\<open>strings.Contains(s, sub)\<close>, both on bytes.\<close>

definition HasPrefix :: "string \<Rightarrow> string \<Rightarrow> bool" where
  "HasPrefix s p = prefix p s"

fun Contains :: "string \<Rightarrow> string \<Rightarrow> bool" where
  "Contains [] sub = (sub = [])"
| "Contains (c # cs) sub = (prefix sub (c # cs) \<or> Contains cs sub)"

subsection \<open>Data model\<close>

datatype ContainerRuntime = RuntimeUnknown | RuntimeDocker | RuntimePodman

fun String_of :: "ContainerRuntime \<Rightarrow> string" where
  "String_of RuntimeDocker = ''docker''"
| "String_of RuntimePodman = ''podman''"
| "String_of RuntimeUnknown = ''unknown''"

record RuntimeSocket =
  Path :: string
  Runtime :: ContainerRuntime
  Score :: int

record RuntimeDetector =
  preferredRuntime :: ContainerRuntime
  customSocket :: string

definition NewRuntimeDetector :: RuntimeDetector where
  "NewRuntimeDetector = \<lparr>preferredRuntime = RuntimeUnknown, customSocket = ''''\<rparr>"

definition SetPreferredRuntime :: "ContainerRuntime \<Rightarrow> RuntimeDetector \<Rightarrow> RuntimeDetector" where
  "SetPreferredRuntime runtime rd = rd\<lparr>preferredRuntime := runtime\<rparr>"

definition SetCustomSocket :: "string \<Rightarrow> RuntimeDetector \<Rightarrow> RuntimeDetector" where
  "SetCustomSocket socket rd = rd\<lparr>customSocket := socket\<rparr>"

subsection \<open>The host\<close>

text \<open>
  \<^item> \<open>env\<close>: the process environment; a variable can be unset (\<open>None\<close>) or set, also to the
    empty string.
  \<^item> \<open>expand_env\<close>: \<^verbatim>\<open>os.ExpandEnv\<close>.
  \<^item> \<open>lstat\<close>: \<^verbatim>\<open>os.Lstat\<close>, the file mode bits of a path, \<open>None\<close> when it returns an error.
  \<^item> \<open>stat_ok\<close>: \<^verbatim>\<open>os.Stat\<close> returned no error.
  \<^item> \<open>look_path\<close>: \<^verbatim>\<open>exec.LookPath\<close> found the binary.
  \<^item> \<open>socket_location\<close>: the result of \<^verbatim>\<open>socketLocation()\<close>, a function of the package
    that is defined in another file (the Docker socket lookup), taken as a parameter.
  \<^item> \<open>new_client\<close>: \<^verbatim>\<open>client.NewClientWithOpts(client.WithHost(host), ...)\<close> returned no
    error.
  \<^item> \<open>ping\<close>: \<^verbatim>\<open>cli.Ping\<close> on the client of that host returned no error within the timeout.
  \<^item> \<open>podman_info\<close>: \<^verbatim>\<open>podman info --format json\<close> exited with status zero in time.
  \<^item> \<open>podman_machine_inspect\<close>: the output of \<^verbatim>\<open>podman machine inspect\<close>, \<open>None\<close> when
    the command failed.
  \<^item> \<open>separator\<close>: \<^verbatim>\<open>filepath.Separator\<close> of the platform.
  \<^item> \<open>unicode_lower\<close> and \<open>unicode_trim\<close>: what \<^verbatim>\<open>strings.ToLower\<close> and
    \<^verbatim>\<open>strings.TrimSpace\<close> return on a string that holds a byte from \<^verbatim>\<open>0x80\<close> on. There
    they go through the Unicode tables of the Go library
    (\<^verbatim>\<open>strings.Map(unicode.ToLower, s)\<close>, which for instance lowers the Kelvin sign U+212A
    to the letter k, and \<^verbatim>\<open>strings.TrimFunc(s, unicode.IsSpace)\<close>, which for instance
    removes the no-break space U+00A0). The tables are not written out: the two results are
    taken as they are.
\<close>

record world =
  env :: "string \<rightharpoonup> string"
  expand_env :: "string \<Rightarrow> string"
  lstat :: "string \<rightharpoonup> 32 word"
  stat_ok :: "string \<Rightarrow> bool"
  look_path :: "string \<Rightarrow> bool"
  socket_location :: "string \<times> bool"
  new_client :: "string \<Rightarrow> bool"
  ping :: "string \<Rightarrow> bool"
  podman_info :: bool
  podman_machine_inspect :: "string option"
  separator :: char
  unicode_lower :: "string \<Rightarrow> string"
  unicode_trim :: "string \<Rightarrow> string"

text \<open>\<^verbatim>\<open>strings.ToLower\<close>: a string of ASCII bytes is lowered byte by byte (the fast path of
  the library); any other string is lowered by the Unicode tables.\<close>

definition ToLower :: "world \<Rightarrow> string \<Rightarrow> string" where
  "ToLower w s = (if list_all is_ascii s then map to_lower_char s else unicode_lower w s)"

text \<open>\<^verbatim>\<open>strings.TrimSpace\<close>: from a string of ASCII bytes the leading and the trailing ASCII
  white space is removed (the fast path of the library); any other string is trimmed by the
  Unicode tables.\<close>

definition TrimSpace :: "world \<Rightarrow> string \<Rightarrow> string" where
  "TrimSpace w s =
     (if list_all is_ascii s then rev (dropWhile is_space (rev (dropWhile is_space s)))
      else unicode_trim w s)"

text \<open>\<^verbatim>\<open>os.Getenv\<close>: the value, empty when the variable is not present.\<close>

definition Getenv :: "world \<Rightarrow> string \<Rightarrow> string" where
  "Getenv w k = (case env w k of None \<Rightarrow> '''' | Some v \<Rightarrow> v)"

text \<open>\<^verbatim>\<open>filepath.ToSlash\<close>: every separator becomes a slash.\<close>

definition ToSlash :: "world \<Rightarrow> string \<Rightarrow> string" where
  "ToSlash w p = map (\<lambda>c. if c = separator w then CHR ''/'' else c) p"

text \<open>The type bits of \<^verbatim>\<open>os.FileMode\<close> that \<^verbatim>\<open>socketExists\<close> tests.\<close>

definition ModeNamedPipe :: "32 word" where
  "ModeNamedPipe = push_bit 25 1"

definition ModeSocket :: "32 word" where
  "ModeSocket = push_bit 24 1"

subsection \<open>runtime\_detector.go\<close>

definition checkEnvironmentHints :: "world \<Rightarrow> ContainerRuntime" where
  "checkEnvironmentHints w =
     (let actRuntime = Getenv w ''ACT_CONTAINER_RUNTIME'' in
      if actRuntime \<noteq> '''' \<and> ToLower w actRuntime = ''docker'' then RuntimeDocker
      else if actRuntime \<noteq> '''' \<and> ToLower w actRuntime = ''podman'' then RuntimePodman
      else if Getenv w ''PODMAN_HOST'' \<noteq> '''' then RuntimePodman
      else if Getenv w ''DOCKER_HOST'' \<noteq> '''' then RuntimeDocker
      else RuntimeUnknown)"

text \<open>\<^verbatim>\<open>socketExists\<close>: the entry exists and is a socket or a named pipe.\<close>

definition socketExists :: "world \<Rightarrow> string \<Rightarrow> bool" where
  "socketExists w path =
     (case lstat w path of
        Some mode \<Rightarrow> and mode ModeSocket \<noteq> 0 \<or> and mode ModeNamedPipe \<noteq> 0
      | None \<Rightarrow> False)"

definition guessRuntimeFromSocket :: "world \<Rightarrow> string \<Rightarrow> ContainerRuntime" where
  "guessRuntimeFromSocket w socket =
     (let lower = ToLower w socket in
      if Contains lower ''podman'' then RuntimePodman
      else if Contains lower ''docker'' then RuntimeDocker
      else RuntimeDocker)"

text \<open>The candidate table of \<^verbatim>\<open>detectRuntimeSockets\<close>, in the order of the source.\<close>

definition candidates :: "RuntimeSocket list" where
  "candidates =
    [\<lparr>Path = ''$XDG_RUNTIME_DIR/podman/podman.sock'', Runtime = RuntimePodman, Score = 95\<rparr>,
     \<lparr>Path = ''/run/podman/podman.sock'', Runtime = RuntimePodman, Score = 90\<rparr>,
     \<lparr>Path = ''$HOME/.local/share/containers/podman/machine/podman.sock'',
        Runtime = RuntimePodman, Score = 85\<rparr>,
     \<lparr>Path = ''/var/run/docker.sock'', Runtime = RuntimeDocker, Score = 80\<rparr>,
     \<lparr>Path = ''$HOME/.colima/docker.sock'', Runtime = RuntimeDocker, Score = 75\<rparr>,
     \<lparr>Path = ''$XDG_RUNTIME_DIR/docker.sock'', Runtime = RuntimeDocker, Score = 70\<rparr>,
     \<lparr>Path = ''$HOME/.docker/run/docker.sock'', Runtime = RuntimeDocker, Score = 65\<rparr>,
     \<lparr>Path = [backslash, backslash] @ ''.'' @ [backslash] @ ''pipe'' @ [backslash]
               @ ''docker_engine'',
        Runtime = RuntimeDocker, Score = 60\<rparr>,
     \<lparr>Path = [backslash, backslash] @ ''.'' @ [backslash] @ ''pipe'' @ [backslash]
               @ ''podman-machine-default'',
        Runtime = RuntimePodman, Score = 85\<rparr>]"

text \<open>The first loop of \<^verbatim>\<open>detectRuntimeSockets\<close>: every candidate whose expanded path exists
  is appended to \<open>available\<close>, with the expanded path.\<close>

fun scan_candidates :: "world \<Rightarrow> RuntimeSocket list \<Rightarrow> RuntimeSocket list \<Rightarrow> RuntimeSocket list" where
  "scan_candidates w [] available = available"
| "scan_candidates w (candidate # rest) available =
     (let expanded = expand_env w (Path candidate) in
      if socketExists w expanded
      then scan_candidates w rest
             (available @ [\<lparr>Path = expanded, Runtime = Runtime candidate, Score = Score candidate\<rparr>])
      else scan_candidates w rest available)"

text \<open>The second loop, the sort by score: \<open>sort_inner i j\<close> is the loop over \<open>j\<close> for a
  fixed \<open>i\<close>, \<open>sort_outer i\<close> the loop over \<open>i\<close>. The source enters the inner loop with
  \<open>i < j\<close> only, so both reads are in range whenever \<open>j\<close> is.\<close>

definition swap :: "nat \<Rightarrow> nat \<Rightarrow> 'a list \<Rightarrow> 'a list" where
  "swap i j xs = xs[i := xs ! j, j := xs ! i]"

function sort_inner :: "nat \<Rightarrow> nat \<Rightarrow> RuntimeSocket list \<Rightarrow> RuntimeSocket list" where
  "sort_inner i j available =
     (if j < length available
      then sort_inner i (j + 1)
             (if Score (available ! i) < Score (available ! j) then swap i j available
              else available)
      else available)"
  by pat_completeness auto
termination
  by (relation "measure (\<lambda>(i, j, available). length available - j)") (auto simp: swap_def)

declare sort_inner.simps [simp del]

function sort_outer :: "nat \<Rightarrow> RuntimeSocket list \<Rightarrow> RuntimeSocket list" where
  "sort_outer i available =
     (if i + 1 < length available
      then sort_outer (i + 1) (sort_inner i (i + 1) available)
      else available)"
  by pat_completeness auto
termination
proof (relation "measure (\<lambda>(i, available). length available - i)")
  show "wf (measure (\<lambda>(i, available). length available - i))"
    by simp
next
  fix i :: nat and available :: "RuntimeSocket list"
  assume less: "i + 1 < length available"
  have len: "length (sort_inner i' j xs) = length xs" for i' j xs
  proof (induction i' j xs rule: sort_inner.induct)
    case (1 i' j xs)
    show ?case
    proof (cases "j < length xs")
      case True
      with "1" show ?thesis
        by (subst sort_inner.simps) (simp add: swap_def)
    next
      case False
      then show ?thesis
        by (subst sort_inner.simps) simp
    qed
  qed
  show "((i + 1, sort_inner i (i + 1) available), (i, available))
          \<in> measure (\<lambda>(i, available). length available - i)"
    using less by (simp add: len)
qed

declare sort_outer.simps [simp del]

definition detectRuntimeSockets :: "world \<Rightarrow> RuntimeDetector \<Rightarrow> RuntimeSocket list" where
  "detectRuntimeSockets w rd =
     (if customSocket rd \<noteq> ''''
      then [\<lparr>Path = customSocket rd,
             Runtime = guessRuntimeFromSocket w (customSocket rd),
             Score = 100\<rparr>]
      else sort_outer 0 (scan_candidates w candidates []))"

text \<open>\<^verbatim>\<open>verifySocketConnection\<close>: the host string, a client for it, a ping.\<close>

definition pipe_prefix :: string where
  "pipe_prefix = [backslash, backslash] @ ''.'' @ [backslash]"

definition verifySocketConnection :: "world \<Rightarrow> RuntimeSocket \<Rightarrow> bool" where
  "verifySocketConnection w socket =
     (let host = (if HasPrefix (Path socket) pipe_prefix
                  then ''npipe://'' @ ToSlash w (Path socket)
                  else ''unix://'' @ Path socket) in
      if \<not> new_client w host then False
      else if \<not> ping w host then False
      else True)"

definition verifyDocker :: "world \<Rightarrow> bool" where
  "verifyDocker w =
     (if \<not> look_path w ''docker'' then False
      else case socket_location w of
             (socket, True) \<Rightarrow> (if \<not> new_client w socket then False else ping w socket)
           | (socket, False) \<Rightarrow> False)"

definition verifyPodman :: "world \<Rightarrow> bool" where
  "verifyPodman w =
     (if \<not> look_path w ''podman'' then False
      else if \<not> podman_info w then False
      else True)"

fun verifyRuntime :: "world \<Rightarrow> RuntimeDetector \<Rightarrow> ContainerRuntime \<Rightarrow> bool" where
  "verifyRuntime w rd RuntimeDocker = verifyDocker w"
| "verifyRuntime w rd RuntimePodman = verifyPodman w"
| "verifyRuntime w rd RuntimeUnknown = False"

text \<open>The loop of \<^verbatim>\<open>autoDetectRuntime\<close> over the sockets in order.\<close>

fun try_sockets :: "world \<Rightarrow> RuntimeSocket list \<Rightarrow> ContainerRuntime" where
  "try_sockets w [] = RuntimeUnknown"
| "try_sockets w (socket # rest) =
     (if verifySocketConnection w socket then Runtime socket else try_sockets w rest)"

definition autoDetectRuntime :: "world \<Rightarrow> RuntimeDetector \<Rightarrow> ContainerRuntime" where
  "autoDetectRuntime w rd =
     (let sockets = detectRuntimeSockets w rd in
      if length sockets = 0 then RuntimeUnknown
      else try_sockets w sockets)"

definition DetectAvailableRuntime :: "world \<Rightarrow> RuntimeDetector \<Rightarrow> ContainerRuntime" where
  "DetectAvailableRuntime w rd =
     (if preferredRuntime rd \<noteq> RuntimeUnknown \<and> verifyRuntime w rd (preferredRuntime rd)
      then preferredRuntime rd
      else let runtime = checkEnvironmentHints w in
        if runtime \<noteq> RuntimeUnknown \<and> verifyRuntime w rd runtime then runtime
        else let runtime = autoDetectRuntime w rd in
          if runtime \<noteq> RuntimeUnknown then runtime
          else RuntimeUnknown)"




text \<open>\<^verbatim>\<open>GetHelpfulErrorMessage\<close>. The two status marks are the UTF-8 bytes of the ballot cross
  (U+2717) and of the check mark (U+2713).\<close>

definition cross_mark :: string where
  "cross_mark = [CHR 0xE2, CHR 0x9C, CHR 0x97]"

definition check_mark :: string where
  "check_mark = [CHR 0xE2, CHR 0x9C, CHR 0x93]"

definition message_head :: string where
  "message_head =
     ''No container runtime detected'' @ [nl, nl]
     @ ''Act requires either Docker or Podman to run GitHub Actions locally.'' @ [nl, nl]
     @ ''Install options:'' @ [nl]
     @ ''  Docker:  https://docs.docker.com/get-docker/'' @ [nl]
     @ ''  Podman:  https://podman.io/getting-started/installation'' @ [nl, nl]
     @ ''Current detection status:'' @ [nl]"

definition message_tail :: string where
  "message_tail =
     [nl] @ ''Override detection with:'' @ [nl]
     @ ''  act --container-runtime=docker'' @ [nl]
     @ ''  act --container-runtime=podman'' @ [nl]
     @ ''  act --container-socket=/custom/socket'' @ [nl]"

definition GetHelpfulErrorMessage :: "world \<Rightarrow> RuntimeDetector \<Rightarrow> string" where
  "GetHelpfulErrorMessage w rd =
     (let dockerAvailable = verifyDocker w;
          (dockerSocket, dockerSocketFound) = socket_location w;
          dockerStatus = (if dockerAvailable then check_mark else cross_mark);
          dockerLine =
            (if dockerSocketFound
             then ''  '' @ dockerStatus @ '' Docker (socket: '' @ dockerSocket @ '')'' @ [nl]
             else ''  '' @ cross_mark @ '' Docker daemon not running (no socket found)'' @ [nl]);
          podmanAvailable = verifyPodman w;
          podmanStatus = (if podmanAvailable then check_mark else cross_mark);
          podmanLine = ''  '' @ podmanStatus @ '' Podman (binary check)'' @ [nl]
      in message_head @ dockerLine @ podmanLine @ message_tail)"

subsection \<open>factory.go\<close>

text \<open>The two package variables: the global detector and the override for tests.\<close>

record factory =
  globalDetector :: RuntimeDetector
  runtimeOverride :: ContainerRuntime

definition init :: factory where
  "init = \<lparr>globalDetector = NewRuntimeDetector, runtimeOverride = RuntimeUnknown\<rparr>"

text \<open>The handles of the factory. \<^verbatim>\<open>newPodmanContainer\<close> and \<^verbatim>\<open>newNullContainer\<close> allocate
  a reference that holds the input; \<^verbatim>\<open>newDockerContainer\<close> belongs to the Docker
  adapter, in another file, and stands here as a constructor of its own. The input is any value, \<open>'i\<close>.\<close>

datatype 'i ExecutionsEnvironment =
    DockerContainer 'i
  | PodmanContainer 'i
  | NullContainer 'i

definition newDockerContainer :: "'i \<Rightarrow> 'i ExecutionsEnvironment" where
  "newDockerContainer input = DockerContainer input"

definition newPodmanContainer :: "'i \<Rightarrow> 'i ExecutionsEnvironment" where
  "newPodmanContainer input = PodmanContainer input"

definition newNullContainer :: "'i \<Rightarrow> 'i ExecutionsEnvironment" where
  "newNullContainer input = NullContainer input"

definition configureDetectorFromEnvironment :: "world \<Rightarrow> factory \<Rightarrow> factory" where
  "configureDetectorFromEnvironment w f =
     (let runtime = Getenv w ''ACT_CONTAINER_RUNTIME'';
          f1 = (if runtime \<noteq> '''' \<and> runtime = ''docker''
                then f\<lparr>globalDetector := SetPreferredRuntime RuntimeDocker (globalDetector f)\<rparr>
                else if runtime \<noteq> '''' \<and> runtime = ''podman''
                then f\<lparr>globalDetector := SetPreferredRuntime RuntimePodman (globalDetector f)\<rparr>
                else f);
          socket = Getenv w ''ACT_CONTAINER_SOCKET''
      in if socket \<noteq> ''''
         then f1\<lparr>globalDetector := SetCustomSocket socket (globalDetector f1)\<rparr>
         else f1)"

text \<open>\<^verbatim>\<open>getSelectedRuntime\<close> returns the runtime and leaves the package variables as the call
  has set them.\<close>

definition getSelectedRuntime :: "world \<Rightarrow> factory \<Rightarrow> ContainerRuntime \<times> factory" where
  "getSelectedRuntime w f =
     (if runtimeOverride f \<noteq> RuntimeUnknown then (runtimeOverride f, f)
      else let f' = configureDetectorFromEnvironment w f
           in (DetectAvailableRuntime w (globalDetector f'), f'))"

definition NewContainer :: "world \<Rightarrow> factory \<Rightarrow> 'i \<Rightarrow> 'i ExecutionsEnvironment \<times> factory" where
  "NewContainer w f input =
     (let (runtime, f') = getSelectedRuntime w f in
      (case runtime of
         RuntimePodman \<Rightarrow> newPodmanContainer input
       | RuntimeDocker \<Rightarrow> newDockerContainer input
       | RuntimeUnknown \<Rightarrow> newNullContainer input,
       f'))"

definition NewContainerWithRuntime ::
  "world \<Rightarrow> factory \<Rightarrow> 'i \<Rightarrow> ContainerRuntime \<Rightarrow> 'i ExecutionsEnvironment" where
  "NewContainerWithRuntime w f input runtime =
     (if \<not> verifyRuntime w (globalDetector f) runtime then newNullContainer input
      else case runtime of
             RuntimePodman \<Rightarrow> newPodmanContainer input
           | RuntimeDocker \<Rightarrow> newDockerContainer input
           | RuntimeUnknown \<Rightarrow> newNullContainer input)"

definition SetRuntimePreference :: "ContainerRuntime \<Rightarrow> factory \<Rightarrow> factory" where
  "SetRuntimePreference runtime f =
     f\<lparr>globalDetector := SetPreferredRuntime runtime (globalDetector f)\<rparr>"

definition GetCurrentRuntime :: "world \<Rightarrow> factory \<Rightarrow> ContainerRuntime \<times> factory" where
  "GetCurrentRuntime w f = getSelectedRuntime w f"

text \<open>A Go slice is \<open>nil\<close> or holds a sequence: \<open>None\<close> is the nil slice. \<^verbatim>\<open>append\<close> to a
  nil slice allocates.\<close>

type_synonym 'a slice = "'a list option"

definition append_slice :: "'a slice \<Rightarrow> 'a \<Rightarrow> 'a slice" where
  "append_slice s x = (case s of None \<Rightarrow> Some [x] | Some xs \<Rightarrow> Some (xs @ [x]))"

definition elems :: "'a slice \<Rightarrow> 'a list" where
  "elems s = (case s of None \<Rightarrow> [] | Some xs \<Rightarrow> xs)"

definition GetAvailableRuntimes :: "world \<Rightarrow> factory \<Rightarrow> ContainerRuntime slice" where
  "GetAvailableRuntimes w f =
     (let available = None;
          available = (if verifyRuntime w (globalDetector f) RuntimeDocker
                       then append_slice available RuntimeDocker else available);
          available = (if verifyRuntime w (globalDetector f) RuntimePodman
                       then append_slice available RuntimePodman else available)
      in available)"

definition GetRuntimeDetectionError :: "world \<Rightarrow> factory \<Rightarrow> string" where
  "GetRuntimeDetectionError w f = GetHelpfulErrorMessage w (globalDetector f)"

definition SetRuntimeOverride :: "ContainerRuntime \<Rightarrow> factory \<Rightarrow> factory" where
  "SetRuntimeOverride runtime f = f\<lparr>runtimeOverride := runtime\<rparr>"

definition ClearRuntimeOverride :: "factory \<Rightarrow> factory" where
  "ClearRuntimeOverride f = f\<lparr>runtimeOverride := RuntimeUnknown\<rparr>"

subsection \<open>null\_container.go\<close>

text \<open>An operation that returns an error value yields \<open>Inl\<close> of the message, \<open>Inr\<close> of its
  result otherwise. An operation that returns an executor is modelled by the result of running
  that executor. The operations of the null container read none of their arguments, which
  are left out, except where they are returned. \<^verbatim>\<open>JoinPathVariable\<close> hands its arguments to
  the Linux extensions of another file and is not part of the model.\<close>

datatype Health = HealthStarting | HealthHealthy | HealthUnHealthy

definition no_runtime_error :: "world \<Rightarrow> factory \<Rightarrow> string" where
  "no_runtime_error w f =
     ''no container runtime available'' @ [nl, nl] @ GetRuntimeDetectionError w f"

definition null_Create :: "world \<Rightarrow> factory \<Rightarrow> string + unit" where
  "null_Create w f = Inl (no_runtime_error w f)"

definition null_Copy :: "world \<Rightarrow> factory \<Rightarrow> string + unit" where
  "null_Copy w f = Inl (no_runtime_error w f)"

definition null_CopyTarStream :: "world \<Rightarrow> factory \<Rightarrow> string + unit" where
  "null_CopyTarStream w f = Inl (no_runtime_error w f)"

definition null_CopyDir :: "world \<Rightarrow> factory \<Rightarrow> string + unit" where
  "null_CopyDir w f = Inl (no_runtime_error w f)"

definition null_GetContainerArchive :: "world \<Rightarrow> factory \<Rightarrow> string + 'r" where
  "null_GetContainerArchive w f = Inl (no_runtime_error w f)"

definition null_Pull :: "world \<Rightarrow> factory \<Rightarrow> string + unit" where
  "null_Pull w f = Inl (no_runtime_error w f)"

definition null_Start :: "world \<Rightarrow> factory \<Rightarrow> string + unit" where
  "null_Start w f = Inl (no_runtime_error w f)"

definition null_Exec :: "world \<Rightarrow> factory \<Rightarrow> string + unit" where
  "null_Exec w f = Inl (no_runtime_error w f)"

definition null_UpdateFromEnv :: "world \<Rightarrow> factory \<Rightarrow> string + unit" where
  "null_UpdateFromEnv w f = Inl (no_runtime_error w f)"

definition null_UpdateFromImageEnv :: "world \<Rightarrow> factory \<Rightarrow> string + unit" where
  "null_UpdateFromImageEnv w f = Inl (no_runtime_error w f)"

definition null_Remove :: "world \<Rightarrow> factory \<Rightarrow> string + unit" where
  "null_Remove w f = Inl (no_runtime_error w f)"

definition null_Close :: "world \<Rightarrow> factory \<Rightarrow> string + unit" where
  "null_Close w f = Inl (no_runtime_error w f)"

definition null_ReplaceLogWriter :: "'wr \<Rightarrow> 'wr \<Rightarrow> 'wr \<times> 'wr" where
  "null_ReplaceLogWriter stdout stderr = (stdout, stderr)"

definition null_GetHealth :: Health where
  "null_GetHealth = HealthUnHealthy"

definition null_ToContainerPath :: "string \<Rightarrow> string" where
  "null_ToContainerPath path = path"

definition null_GetActPath :: string where
  "null_GetActPath = ''/opt/act''"

definition null_GetPathVariableName :: string where
  "null_GetPathVariableName = ''PATH''"

definition null_DefaultPathVariable :: string where
  "null_DefaultPathVariable = ''/usr/local/sbin:/usr/local/bin:/usr/sbin:/usr/bin:/sbin:/bin''"

definition null_GetRunnerContext :: "string \<rightharpoonup> string" where
  "null_GetRunnerContext =
     map_of [(''os'', ''linux''),
             (''arch'', ''x64''),
             (''temp'', ''/tmp''),
             (''tool_cache'', ''/opt/hostedtoolcache''),
             (''action_path'', ''/github/workspace''),
             (''workspace'', ''/github/workspace'')]"

definition null_IsEnvironmentCaseInsensitive :: bool where
  "null_IsEnvironmentCaseInsensitive = False"

text \<open>The operations of a handle that return an error value. A call on a handle is
  dispatched on its variant; the operations of the Docker and Podman adapters belong to
  other files and are the parameters \<open>docker_op\<close> and \<open>podman_op\<close>.\<close>

datatype operation =
  Create | Copy | CopyTarStream | CopyDir | GetContainerArchive | Pull | Start | Exec
  | UpdateFromEnv | UpdateFromImageEnv | Remove | Close

fun null_op :: "world \<Rightarrow> factory \<Rightarrow> operation \<Rightarrow> string + unit" where
  "null_op w f Create = null_Create w f"
| "null_op w f Copy = null_Copy w f"
| "null_op w f CopyTarStream = null_CopyTarStream w f"
| "null_op w f CopyDir = null_CopyDir w f"
| "null_op w f GetContainerArchive = null_GetContainerArchive w f"
| "null_op w f Pull = null_Pull w f"
| "null_op w f Start = null_Start w f"
| "null_op w f Exec = null_Exec w f"
| "null_op w f UpdateFromEnv = null_UpdateFromEnv w f"
| "null_op w f UpdateFromImageEnv = null_UpdateFromImageEnv w f"
| "null_op w f Remove = null_Remove w f"
| "null_op w f Close = null_Close w f"

fun call ::
  "('i \<Rightarrow> operation \<Rightarrow> string + unit) \<Rightarrow> ('i \<Rightarrow> operation \<Rightarrow> string + unit) \<Rightarrow>
   world \<Rightarrow> factory \<Rightarrow> 'i ExecutionsEnvironment \<Rightarrow> operation \<Rightarrow> string + unit" where
  "call docker_op podman_op w f (NullContainer input) op = null_op w f op"
| "call docker_op podman_op w f (DockerContainer input) op = docker_op input op"
| "call docker_op podman_op w f (PodmanContainer input) op = podman_op input op"

fun GetHealth :: "('i \<Rightarrow> Health) \<Rightarrow> ('i \<Rightarrow> Health) \<Rightarrow> 'i ExecutionsEnvironment \<Rightarrow> Health" where
  "GetHealth docker_health podman_health (NullContainer input) = null_GetHealth"
| "GetHealth docker_health podman_health (DockerContainer input) = docker_health input"
| "GetHealth docker_health podman_health (PodmanContainer input) = podman_health input"

subsection \<open>Example hosts\<close>

text \<open>\<open>bare_host\<close> is a host with nothing installed: an empty environment, no socket file, no
  binary on the search path. Its expansion of the table's paths is the one of an environment
  where \<^verbatim>\<open>HOME\<close> and \<^verbatim>\<open>XDG_RUNTIME_DIR\<close> are unset, tabulated on those paths. On the
  example hosts every string that is lowered or trimmed is ASCII, so that the fields
  \<open>unicode_lower\<close> and \<open>unicode_trim\<close> are never read; they are set to the identity.\<close>

definition expand_unset :: "string \<Rightarrow> string" where
  "expand_unset p =
     (case map_of
        [(''$XDG_RUNTIME_DIR/podman/podman.sock'', ''/podman/podman.sock''),
         (''$HOME/.local/share/containers/podman/machine/podman.sock'',
          ''/.local/share/containers/podman/machine/podman.sock''),
         (''$HOME/.colima/docker.sock'', ''/.colima/docker.sock''),
         (''$XDG_RUNTIME_DIR/docker.sock'', ''/docker.sock''),
         (''$HOME/.docker/run/docker.sock'', ''/.docker/run/docker.sock'')] p of
        Some q \<Rightarrow> q
      | None \<Rightarrow> p)"

definition bare_host :: world where
  "bare_host =
     \<lparr>env = Map.empty,
      expand_env = expand_unset,
      lstat = Map.empty,
      stat_ok = (\<lambda>p. False),
      look_path = (\<lambda>b. False),
      socket_location = ('''', False),
      new_client = (\<lambda>h. True),
      ping = (\<lambda>h. False),
      podman_info = False,
      podman_machine_inspect = None,
      separator = CHR ''/'',
      unicode_lower = (\<lambda>s. s),
      unicode_trim = (\<lambda>s. s)\<rparr>"

text \<open>\<open>docker_host\<close> is a host where Docker is installed and its daemon answers on the
  system-wide socket (mode \<^verbatim>\<open>srw-rw----\<close>); Podman is absent.\<close>

definition docker_host :: world where
  "docker_host =
     \<lparr>env = Map.empty,
      expand_env = expand_unset,
      lstat = [''/var/run/docker.sock'' \<mapsto> ModeSocket + 432],
      stat_ok = (\<lambda>p. p = ''/var/run/docker.sock''),
      look_path = (\<lambda>b. b = ''docker''),
      socket_location = (''unix:///var/run/docker.sock'', True),
      new_client = (\<lambda>h. True),
      ping = (\<lambda>h. h = ''unix:///var/run/docker.sock''),
      podman_info = False,
      podman_machine_inspect = None,
      separator = CHR ''/'',
      unicode_lower = (\<lambda>s. s),
      unicode_trim = (\<lambda>s. s)\<rparr>"

text \<open>\<open>both_host\<close> is a host of a user with \<^verbatim>\<open>HOME=/home/act\<close> and
  \<^verbatim>\<open>XDG_RUNTIME_DIR=/run/user/1000\<close> where both runtimes are installed and answer: rootless
  Podman on the socket of the runtime directory, Docker on the system-wide socket. The path
  \<^verbatim>\<open>/home/act/.colima/docker.sock\<close> is an ordinary file (mode \<^verbatim>\<open>-rw-r--r--\<close>).\<close>

definition expand_user :: "string \<Rightarrow> string" where
  "expand_user p =
     (case map_of
        [(''$XDG_RUNTIME_DIR/podman/podman.sock'', ''/run/user/1000/podman/podman.sock''),
         (''$HOME/.local/share/containers/podman/machine/podman.sock'',
          ''/home/act/.local/share/containers/podman/machine/podman.sock''),
         (''$HOME/.colima/docker.sock'', ''/home/act/.colima/docker.sock''),
         (''$XDG_RUNTIME_DIR/docker.sock'', ''/run/user/1000/docker.sock''),
         (''$HOME/.docker/run/docker.sock'', ''/home/act/.docker/run/docker.sock'')] p of
        Some q \<Rightarrow> q
      | None \<Rightarrow> p)"

definition both_host :: world where
  "both_host =
     \<lparr>env = [''HOME'' \<mapsto> ''/home/act'', ''XDG_RUNTIME_DIR'' \<mapsto> ''/run/user/1000''],
      expand_env = expand_user,
      lstat = [''/run/user/1000/podman/podman.sock'' \<mapsto> ModeSocket + 384,
               ''/var/run/docker.sock'' \<mapsto> ModeSocket + 432,
               ''/home/act/.colima/docker.sock'' \<mapsto> 420],
      stat_ok = (\<lambda>p. p = ''/run/user/1000/podman/podman.sock'' \<or> p = ''/var/run/docker.sock''
                    \<or> p = ''/home/act/.colima/docker.sock''),
      look_path = (\<lambda>b. b = ''docker'' \<or> b = ''podman''),
      socket_location = (''unix:///var/run/docker.sock'', True),
      new_client = (\<lambda>h. True),
      ping = (\<lambda>h. h = ''unix:///var/run/docker.sock''
                  \<or> h = ''unix:///run/user/1000/podman/podman.sock''),
      podman_info = True,
      podman_machine_inspect = None,
      separator = CHR ''/'',
      unicode_lower = (\<lambda>s. s),
      unicode_trim = (\<lambda>s. s)\<rparr>"


subsection \<open>Sequences of calls\<close>

text \<open>A sequence of resolution calls, each against the host as it is at that call; the package
  variables are threaded through.\<close>

fun resolve_all :: "world list \<Rightarrow> factory \<Rightarrow> ContainerRuntime list \<times> factory" where
  "resolve_all [] f = ([], f)"
| "resolve_all (w # ws) f =
     (let (runtime, f') = getSelectedRuntime w f;
          (runtimes, f'') = resolve_all ws f'
      in (runtime # runtimes, f''))"
subsection \<open>Auxiliary notions of the proofs\<close>

text \<open>A candidate of the table after expansion, as the first loop appends it, and the test
  that loop makes.\<close>

definition expanded :: "world \<Rightarrow> RuntimeSocket \<Rightarrow> RuntimeSocket" where
  "expanded w c = \<lparr>Path = expand_env w (Path c), Runtime = Runtime c, Score = Score c\<rparr>"

definition discovered :: "world \<Rightarrow> RuntimeSocket \<Rightarrow> bool" where
  "discovered w c = socketExists w (expand_env w (Path c))"

text \<open>What the sort loops make of a list in descending order that is followed by one more
  element: the element is carried to its place, and each element it displaces is carried on.\<close>

fun place :: "RuntimeSocket list \<Rightarrow> RuntimeSocket \<Rightarrow> RuntimeSocket list" where
  "place [] e = [e]"
| "place (d # ds) e = (if Score e \<le> Score d then d # place ds e else e # place ds d)"

section \<open>Properties\<close>

subsection \<open>Strings and the environment\<close>

lemma Contains_Nil [simp]: "Contains s []"
  by (cases s) simp_all

lemma Contains_append_left: "Contains a sub \<Longrightarrow> Contains (a @ b) sub"
proof (induction a)
  case Nil
  then show ?case by simp
next
  case (Cons c cs)
  from Cons.prems have "prefix sub (c # cs) \<or> Contains cs sub" by simp
  then show ?case
  proof
    assume "prefix sub (c # cs)"
    then have "prefix sub ((c # cs) @ b)" by (rule prefix_prefix)
    then show ?thesis by simp
  next
    assume "Contains cs sub"
    then have "Contains (cs @ b) sub" by (rule Cons.IH)
    then show ?thesis by simp
  qed
qed

lemma Contains_append_right: "Contains b sub \<Longrightarrow> Contains (a @ b) sub"
  by (induction a) auto

lemma Getenv_nonempty: "Getenv w k \<noteq> '''' \<longleftrightarrow> (\<exists>v. env w k = Some v \<and> v \<noteq> '''')"
  by (simp add: Getenv_def split: option.splits)

lemma Getenv_Some: "env w k = Some v \<Longrightarrow> Getenv w k = v"
  by (simp add: Getenv_def)

lemma Getenv_None: "env w k = None \<Longrightarrow> Getenv w k = ''''"
  by (simp add: Getenv_def)

lemma ToLower_Nil [simp]: "ToLower w '''' = ''''"
  by (simp add: ToLower_def)

text \<open>On ASCII strings lowering and trimming do not depend on the Unicode tables.\<close>

lemma ToLower_ascii: "list_all is_ascii s \<Longrightarrow> ToLower w s = map to_lower_char s"
  by (simp add: ToLower_def)

lemma TrimSpace_ascii:
  "list_all is_ascii s \<Longrightarrow>
   TrimSpace w s = rev (dropWhile is_space (rev (dropWhile is_space s)))"
  by (simp add: TrimSpace_def)

subsection \<open>Environment hints\<close>

text \<open>
  \<^bold>\<open>C4\<close>, as the code has it. The phase reads \<^verbatim>\<open>ACT_CONTAINER_RUNTIME\<close> first: a value that
  \<^verbatim>\<open>strings.ToLower\<close> lowers to \<^verbatim>\<open>docker\<close> or to \<^verbatim>\<open>podman\<close> selects that runtime,
  whatever the host variables hold; every ASCII spelling of the word, in any letter case, is
  such a value. Otherwise (the variable unset, empty, or a value that lowers to neither word)
  the phase goes on to \<^verbatim>\<open>PODMAN_HOST\<close>, which selects Podman when it is set to a non-empty
  value, whatever that value is; then to \<^verbatim>\<open>DOCKER_HOST\<close>, which selects Docker when it is
  set to a non-empty value; a host variable that is unset or set to the empty string selects
  nothing, and with none selecting the phase yields unknown.
\<close>

theorem checkEnvironmentHints_order:
  "(\<forall>v. env w ''ACT_CONTAINER_RUNTIME'' = Some v \<and> ToLower w v = ''docker''
        \<longrightarrow> checkEnvironmentHints w = RuntimeDocker)
   \<and> (\<forall>v. env w ''ACT_CONTAINER_RUNTIME'' = Some v \<and> ToLower w v = ''podman''
        \<longrightarrow> checkEnvironmentHints w = RuntimePodman)
   \<and> ((env w ''ACT_CONTAINER_RUNTIME'' = None
        \<or> (\<exists>v. env w ''ACT_CONTAINER_RUNTIME'' = Some v
                \<and> ToLower w v \<noteq> ''docker'' \<and> ToLower w v \<noteq> ''podman''))
       \<longrightarrow> ((\<exists>p. env w ''PODMAN_HOST'' = Some p \<and> p \<noteq> '''')
              \<longrightarrow> checkEnvironmentHints w = RuntimePodman)
         \<and> ((env w ''PODMAN_HOST'' = None \<or> env w ''PODMAN_HOST'' = Some '''')
              \<and> (\<exists>q. env w ''DOCKER_HOST'' = Some q \<and> q \<noteq> '''')
              \<longrightarrow> checkEnvironmentHints w = RuntimeDocker)
         \<and> ((env w ''PODMAN_HOST'' = None \<or> env w ''PODMAN_HOST'' = Some '''')
              \<and> (env w ''DOCKER_HOST'' = None \<or> env w ''DOCKER_HOST'' = Some '''')
              \<longrightarrow> checkEnvironmentHints w = RuntimeUnknown))
   \<and> (\<forall>v. env w ''ACT_CONTAINER_RUNTIME'' = Some v \<and> list_all is_ascii v
          \<and> map to_lower_char v = ''docker''
        \<longrightarrow> checkEnvironmentHints w = RuntimeDocker)
   \<and> (\<forall>v. env w ''ACT_CONTAINER_RUNTIME'' = Some v \<and> list_all is_ascii v
          \<and> map to_lower_char v = ''podman''
        \<longrightarrow> checkEnvironmentHints w = RuntimePodman)"
proof (intro conjI allI impI)
  fix v
  assume "env w ''ACT_CONTAINER_RUNTIME'' = Some v \<and> ToLower w v = ''docker''"
  then have "Getenv w ''ACT_CONTAINER_RUNTIME'' = v" and "ToLower w v = ''docker''" and "v \<noteq> ''''"
    by (auto simp: Getenv_def)
  then show "checkEnvironmentHints w = RuntimeDocker"
    by (simp add: checkEnvironmentHints_def)
next
  fix v
  assume "env w ''ACT_CONTAINER_RUNTIME'' = Some v \<and> ToLower w v = ''podman''"
  then have "Getenv w ''ACT_CONTAINER_RUNTIME'' = v" and "ToLower w v = ''podman''" and "v \<noteq> ''''"
    by (auto simp: Getenv_def)
  then show "checkEnvironmentHints w = RuntimePodman"
    by (simp add: checkEnvironmentHints_def)
next
  assume act: "env w ''ACT_CONTAINER_RUNTIME'' = None
       \<or> (\<exists>v. env w ''ACT_CONTAINER_RUNTIME'' = Some v
                \<and> ToLower w v \<noteq> ''docker'' \<and> ToLower w v \<noteq> ''podman'')"
  assume "\<exists>p. env w ''PODMAN_HOST'' = Some p \<and> p \<noteq> ''''"
  then have "Getenv w ''PODMAN_HOST'' \<noteq> ''''"
    by (simp add: Getenv_nonempty)
  with act show "checkEnvironmentHints w = RuntimePodman"
    by (auto simp: checkEnvironmentHints_def Getenv_def)
next
  assume act: "env w ''ACT_CONTAINER_RUNTIME'' = None
       \<or> (\<exists>v. env w ''ACT_CONTAINER_RUNTIME'' = Some v
                \<and> ToLower w v \<noteq> ''docker'' \<and> ToLower w v \<noteq> ''podman'')"
  assume "(env w ''PODMAN_HOST'' = None \<or> env w ''PODMAN_HOST'' = Some '''')
              \<and> (\<exists>q. env w ''DOCKER_HOST'' = Some q \<and> q \<noteq> '''')"
  then have "Getenv w ''PODMAN_HOST'' = ''''" and "Getenv w ''DOCKER_HOST'' \<noteq> ''''"
    by (auto simp: Getenv_def)
  with act show "checkEnvironmentHints w = RuntimeDocker"
    by (auto simp: checkEnvironmentHints_def Getenv_def)
next
  assume act: "env w ''ACT_CONTAINER_RUNTIME'' = None
       \<or> (\<exists>v. env w ''ACT_CONTAINER_RUNTIME'' = Some v
                \<and> ToLower w v \<noteq> ''docker'' \<and> ToLower w v \<noteq> ''podman'')"
  assume "(env w ''PODMAN_HOST'' = None \<or> env w ''PODMAN_HOST'' = Some '''')
              \<and> (env w ''DOCKER_HOST'' = None \<or> env w ''DOCKER_HOST'' = Some '''')"
  then have "Getenv w ''PODMAN_HOST'' = ''''" and "Getenv w ''DOCKER_HOST'' = ''''"
    by (auto simp: Getenv_def)
  with act show "checkEnvironmentHints w = RuntimeUnknown"
    by (auto simp: checkEnvironmentHints_def Getenv_def)
next
  fix v
  assume "env w ''ACT_CONTAINER_RUNTIME'' = Some v \<and> list_all is_ascii v
          \<and> map to_lower_char v = ''docker''"
  then have "Getenv w ''ACT_CONTAINER_RUNTIME'' = v" and "ToLower w v = ''docker''" and "v \<noteq> ''''"
    by (auto simp: Getenv_def ToLower_def)
  then show "checkEnvironmentHints w = RuntimeDocker"
    by (simp add: checkEnvironmentHints_def)
next
  fix v
  assume "env w ''ACT_CONTAINER_RUNTIME'' = Some v \<and> list_all is_ascii v
          \<and> map to_lower_char v = ''podman''"
  then have "Getenv w ''ACT_CONTAINER_RUNTIME'' = v" and "ToLower w v = ''podman''" and "v \<noteq> ''''"
    by (auto simp: Getenv_def ToLower_def)
  then show "checkEnvironmentHints w = RuntimePodman"
    by (simp add: checkEnvironmentHints_def)
qed

text \<open>The theorem at four environments: \<^verbatim>\<open>ACT_CONTAINER_RUNTIME=DoCkEr\<close> together with a
  \<^verbatim>\<open>PODMAN_HOST\<close>; \<^verbatim>\<open>ACT_CONTAINER_RUNTIME=banana\<close> alone; \<^verbatim>\<open>PODMAN_HOST\<close> and
  \<^verbatim>\<open>DOCKER_HOST\<close> both set; \<^verbatim>\<open>DOCKER_HOST\<close> alone.\<close>

theorem checkEnvironmentHints_order_witness:
  "checkEnvironmentHints
     (bare_host\<lparr>env := [''ACT_CONTAINER_RUNTIME'' \<mapsto> ''DoCkEr'',
                        ''PODMAN_HOST'' \<mapsto> ''unix:///test'']\<rparr>) = RuntimeDocker
   \<and> checkEnvironmentHints
       (bare_host\<lparr>env := [''ACT_CONTAINER_RUNTIME'' \<mapsto> ''banana'']\<rparr>) = RuntimeUnknown
   \<and> checkEnvironmentHints
       (bare_host\<lparr>env := [''PODMAN_HOST'' \<mapsto> ''unix:///test'',
                          ''DOCKER_HOST'' \<mapsto> ''unix:///test'']\<rparr>) = RuntimePodman
   \<and> checkEnvironmentHints
       (bare_host\<lparr>env := [''DOCKER_HOST'' \<mapsto> ''unix:///test'']\<rparr>) = RuntimeDocker"
proof -
  have lower: "ToLower w ''DoCkEr'' = ''docker''" "ToLower w ''banana'' = ''banana''" for w
    by (simp_all add: ToLower_def to_lower_char_def is_ascii_def)
  show ?thesis
    using lower
      checkEnvironmentHints_order
        [of "bare_host\<lparr>env := [''ACT_CONTAINER_RUNTIME'' \<mapsto> ''DoCkEr'',
                                 ''PODMAN_HOST'' \<mapsto> ''unix:///test'']\<rparr>"]
      checkEnvironmentHints_order
        [of "bare_host\<lparr>env := [''ACT_CONTAINER_RUNTIME'' \<mapsto> ''banana'']\<rparr>"]
      checkEnvironmentHints_order
        [of "bare_host\<lparr>env := [''PODMAN_HOST'' \<mapsto> ''unix:///test'',
                                 ''DOCKER_HOST'' \<mapsto> ''unix:///test'']\<rparr>"]
      checkEnvironmentHints_order
        [of "bare_host\<lparr>env := [''DOCKER_HOST'' \<mapsto> ''unix:///test'']\<rparr>"]
    by (simp add: bare_host_def)
qed

text \<open>A host variable that is set selects nothing when its value is the empty string:
  \<^verbatim>\<open>PODMAN_HOST\<close> is set, \<^verbatim>\<open>os.Getenv\<close> returns the empty string, and the phase yields
  unknown.\<close>

theorem checkEnvironmentHints_empty_PODMAN_HOST:
  "env (bare_host\<lparr>env := [''PODMAN_HOST'' \<mapsto> '''']\<rparr>) ''PODMAN_HOST'' = Some ''''
   \<and> env (bare_host\<lparr>env := [''PODMAN_HOST'' \<mapsto> '''']\<rparr>) ''ACT_CONTAINER_RUNTIME'' = None
   \<and> env (bare_host\<lparr>env := [''PODMAN_HOST'' \<mapsto> '''']\<rparr>) ''DOCKER_HOST'' = None
   \<and> checkEnvironmentHints (bare_host\<lparr>env := [''PODMAN_HOST'' \<mapsto> '''']\<rparr>) = RuntimeUnknown"
  by (simp add: checkEnvironmentHints_def Getenv_def bare_host_def)

subsection \<open>The override for tests\<close>

lemma getSelectedRuntime_override:
  "runtimeOverride f \<noteq> RuntimeUnknown \<Longrightarrow> getSelectedRuntime w f = (runtimeOverride f, f)"
  by (simp add: getSelectedRuntime_def)

lemma resolve_all_override:
  "runtimeOverride f \<noteq> RuntimeUnknown \<Longrightarrow>
   resolve_all ws f = (replicate (length ws) (runtimeOverride f), f)"
  by (induction ws) (simp_all add: getSelectedRuntime_override)

text \<open>
  \<^bold>\<open>C5\<close>. While the override holds a runtime other than unknown, every resolution call returns
  exactly that runtime, whatever the host, the environment and the detector's configuration
  are, and leaves the package variables as they are: \<^verbatim>\<open>getSelectedRuntime\<close>,
  \<^verbatim>\<open>GetCurrentRuntime\<close>, any sequence of calls (each on a host of its own), and
  \<^verbatim>\<open>NewContainer\<close>, which returns the adapter of that runtime. After
  \<^verbatim>\<open>ClearRuntimeOverride\<close> the override is unknown again and a call goes to the detector.
\<close>

theorem override_wins:
  assumes "runtime \<noteq> RuntimeUnknown"
  shows "getSelectedRuntime w (SetRuntimeOverride runtime f)
           = (runtime, SetRuntimeOverride runtime f)
    \<and> GetCurrentRuntime w (SetRuntimeOverride runtime f)
           = (runtime, SetRuntimeOverride runtime f)
    \<and> resolve_all ws (SetRuntimeOverride runtime f)
           = (replicate (length ws) runtime, SetRuntimeOverride runtime f)
    \<and> NewContainer w (SetRuntimeOverride runtime f) input
           = (if runtime = RuntimePodman then PodmanContainer input else DockerContainer input,
              SetRuntimeOverride runtime f)
    \<and> runtimeOverride (ClearRuntimeOverride (SetRuntimeOverride runtime f)) = RuntimeUnknown
    \<and> getSelectedRuntime w (ClearRuntimeOverride (SetRuntimeOverride runtime f))
           = (DetectAvailableRuntime w
                (globalDetector (configureDetectorFromEnvironment w (ClearRuntimeOverride f))),
              configureDetectorFromEnvironment w (ClearRuntimeOverride f))"
proof -
  have ov: "runtimeOverride (SetRuntimeOverride runtime f) = runtime"
    by (simp add: SetRuntimeOverride_def)
  have g: "getSelectedRuntime w (SetRuntimeOverride runtime f)
             = (runtime, SetRuntimeOverride runtime f)"
    using assms getSelectedRuntime_override [of "SetRuntimeOverride runtime f" w] ov by simp
  have c: "GetCurrentRuntime w (SetRuntimeOverride runtime f)
             = (runtime, SetRuntimeOverride runtime f)"
    using g by (simp add: GetCurrentRuntime_def)
  have r: "resolve_all ws (SetRuntimeOverride runtime f)
          = (replicate (length ws) runtime, SetRuntimeOverride runtime f)"
    using assms resolve_all_override [of "SetRuntimeOverride runtime f" ws] ov by simp
  have n: "NewContainer w (SetRuntimeOverride runtime f) input
          = (if runtime = RuntimePodman then PodmanContainer input else DockerContainer input,
             SetRuntimeOverride runtime f)"
    using assms g
    by (cases runtime)
       (simp_all add: NewContainer_def newPodmanContainer_def newDockerContainer_def)
  have u: "runtimeOverride (ClearRuntimeOverride (SetRuntimeOverride runtime f)) = RuntimeUnknown"
    by (simp add: ClearRuntimeOverride_def)
  have "ClearRuntimeOverride (SetRuntimeOverride runtime f) = ClearRuntimeOverride f"
    by (simp add: ClearRuntimeOverride_def SetRuntimeOverride_def)
  then have d: "getSelectedRuntime w (ClearRuntimeOverride (SetRuntimeOverride runtime f))
           = (DetectAvailableRuntime w
                (globalDetector (configureDetectorFromEnvironment w (ClearRuntimeOverride f))),
              configureDetectorFromEnvironment w (ClearRuntimeOverride f))"
    by (simp add: getSelectedRuntime_def ClearRuntimeOverride_def Let_def)
  from g c r n u d show ?thesis by simp
qed

text \<open>On the bare host, where no runtime is there, the override to Docker or to Podman is
  returned all the same, call after call.\<close>

theorem override_wins_witness:
  "RuntimeDocker \<noteq> RuntimeUnknown
   \<and> getSelectedRuntime bare_host (SetRuntimeOverride RuntimeDocker init)
       = (RuntimeDocker, SetRuntimeOverride RuntimeDocker init)
   \<and> fst (resolve_all [bare_host, bare_host, bare_host] (SetRuntimeOverride RuntimePodman init))
       = [RuntimePodman, RuntimePodman, RuntimePodman]
   \<and> fst (NewContainer bare_host (SetRuntimeOverride RuntimeDocker init) ''test:latest'')
       = DockerContainer ''test:latest''"
  using override_wins [of RuntimeDocker bare_host init "[]" "''test:latest''"]
    override_wins [of RuntimePodman bare_host init "[bare_host, bare_host, bare_host]" "''x''"]
  by simp

subsection \<open>Forced creation\<close>

lemma verifyRuntime_Unknown [simp]: "\<not> verifyRuntime w rd RuntimeUnknown"
  by simp

text \<open>
  \<^bold>\<open>C6\<close>. \<^verbatim>\<open>NewContainerWithRuntime\<close> verifies the forced runtime before it instantiates an
  adapter: when the verification fails it returns the null container; the unknown runtime never
  verifies and gives the null container; and a Docker or Podman adapter comes back only for
  that very runtime, verified, holding the caller's input.
\<close>

theorem forced_runtime_is_verified:
  "(\<not> verifyRuntime w (globalDetector f) runtime
      \<longrightarrow> NewContainerWithRuntime w f input runtime = NullContainer input)
   \<and> \<not> verifyRuntime w (globalDetector f) RuntimeUnknown
   \<and> NewContainerWithRuntime w f input RuntimeUnknown = NullContainer input
   \<and> (\<forall>i. NewContainerWithRuntime w f input runtime = DockerContainer i
          \<longrightarrow> runtime = RuntimeDocker \<and> verifyDocker w \<and> i = input)
   \<and> (\<forall>i. NewContainerWithRuntime w f input runtime = PodmanContainer i
          \<longrightarrow> runtime = RuntimePodman \<and> verifyPodman w \<and> i = input)"
  by (cases runtime)
     (auto simp: NewContainerWithRuntime_def newNullContainer_def newDockerContainer_def
        newPodmanContainer_def)

text \<open>Forcing Docker on the bare host gives the null container; on the host where Docker runs
  it gives the Docker adapter.\<close>

theorem forced_runtime_is_verified_witness:
  "\<not> verifyRuntime bare_host (globalDetector init) RuntimeDocker
   \<and> NewContainerWithRuntime bare_host init ''test:latest'' RuntimeDocker
       = NullContainer ''test:latest''
   \<and> NewContainerWithRuntime docker_host init ''test:latest'' RuntimeDocker
       = DockerContainer ''test:latest''
   \<and> verifyDocker docker_host"
proof -
  have bare: "\<not> verifyRuntime bare_host (globalDetector init) RuntimeDocker"
    by (simp add: verifyDocker_def bare_host_def)
  have dock: "verifyDocker docker_host"
    by (simp add: verifyDocker_def docker_host_def)
  then have made: "NewContainerWithRuntime docker_host init ''test:latest'' RuntimeDocker
       = DockerContainer ''test:latest''"
    by (simp add: NewContainerWithRuntime_def newDockerContainer_def)
  show ?thesis
    using bare dock made
      forced_runtime_is_verified [of bare_host init RuntimeDocker "''test:latest''"]
      forced_runtime_is_verified [of docker_host init RuntimeDocker "''test:latest''"]
    by simp
qed

text \<open>
  \<^bold>\<open>C10\<close>. The override has no part in forced creation: \<^verbatim>\<open>NewContainerWithRuntime\<close> gives the
  same handle whatever the override is set to, the handle is decided by the verification of
  the caller's runtime on the host alone, and an override that names a runtime which does not
  verify still leaves the forced path with the null container.
\<close>

theorem forced_ignores_override:
  "NewContainerWithRuntime w (SetRuntimeOverride r f) input runtime
     = NewContainerWithRuntime w f input runtime
   \<and> NewContainerWithRuntime w (ClearRuntimeOverride f) input runtime
     = NewContainerWithRuntime w f input runtime
   \<and> NewContainerWithRuntime w (SetRuntimeOverride r f) input runtime
     = (if verifyRuntime w (globalDetector f) runtime
        then (if runtime = RuntimePodman then PodmanContainer input else DockerContainer input)
        else NullContainer input)
   \<and> (\<not> verifyRuntime w (globalDetector f) runtime
      \<longrightarrow> NewContainerWithRuntime w (SetRuntimeOverride runtime f) input runtime
          = NullContainer input)"
  by (cases runtime)
     (simp_all add: NewContainerWithRuntime_def SetRuntimeOverride_def ClearRuntimeOverride_def
        newNullContainer_def newDockerContainer_def newPodmanContainer_def)

text \<open>With the override set to Podman on the bare host, resolution answers Podman while the
  forced path still returns the null container.\<close>

theorem forced_ignores_override_witness:
  "\<not> verifyRuntime bare_host (globalDetector init) RuntimePodman
   \<and> NewContainerWithRuntime bare_host (SetRuntimeOverride RuntimePodman init) ''img'' RuntimePodman
       = NullContainer ''img''
   \<and> fst (getSelectedRuntime bare_host (SetRuntimeOverride RuntimePodman init)) = RuntimePodman"
proof -
  have bare: "\<not> verifyRuntime bare_host (globalDetector init) RuntimePodman"
    by (simp add: verifyPodman_def bare_host_def)
  have sel: "fst (getSelectedRuntime bare_host (SetRuntimeOverride RuntimePodman init))
      = RuntimePodman"
    by (simp add: getSelectedRuntime_def SetRuntimeOverride_def)
  have "NewContainerWithRuntime bare_host (SetRuntimeOverride RuntimePodman init) ''img''
          RuntimePodman = NullContainer ''img''"
    using bare
      forced_ignores_override [of bare_host RuntimePodman init "''img''" RuntimePodman,
        THEN conjunct2, THEN conjunct2, THEN conjunct2]
    by simp
  with bare sel show ?thesis by simp
qed
subsection \<open>The configuration read from the environment\<close>

lemma configure_preference:
  "preferredRuntime (globalDetector (configureDetectorFromEnvironment w f))
     = (if Getenv w ''ACT_CONTAINER_RUNTIME'' = ''docker'' then RuntimeDocker
        else if Getenv w ''ACT_CONTAINER_RUNTIME'' = ''podman'' then RuntimePodman
        else preferredRuntime (globalDetector f))"
  by (simp add: configureDetectorFromEnvironment_def SetPreferredRuntime_def
      SetCustomSocket_def Let_def)

text \<open>
  \<^bold>\<open>C9\<close>, at the input where the code departs from it. With
  \<^verbatim>\<open>ACT_CONTAINER_RUNTIME=DOCKER\<close>, \<^verbatim>\<open>configureDetectorFromEnvironment\<close> leaves the preference
  of a fresh detector unknown: its \<^verbatim>\<open>switch\<close> compares the value as it is. The lower-case
  value sets the preference, and \<^verbatim>\<open>checkEnvironmentHints\<close>, which lowers the same variable
  first, answers Docker on that very environment.
\<close>

theorem configure_compares_exact_case:
  "preferredRuntime (globalDetector (configureDetectorFromEnvironment
       (bare_host\<lparr>env := [''ACT_CONTAINER_RUNTIME'' \<mapsto> ''DOCKER'']\<rparr>) init)) = RuntimeUnknown
   \<and> preferredRuntime (globalDetector (configureDetectorFromEnvironment
       (bare_host\<lparr>env := [''ACT_CONTAINER_RUNTIME'' \<mapsto> ''docker'']\<rparr>) init)) = RuntimeDocker
   \<and> checkEnvironmentHints
       (bare_host\<lparr>env := [''ACT_CONTAINER_RUNTIME'' \<mapsto> ''DOCKER'']\<rparr>) = RuntimeDocker"
  by (simp add: configure_preference Getenv_def bare_host_def init_def NewRuntimeDetector_def
      checkEnvironmentHints_def ToLower_def to_lower_char_def is_ascii_def)

subsection \<open>The available runtimes\<close>

lemma GetAvailableRuntimes_cases:
  "GetAvailableRuntimes w f
     = (if verifyDocker w
        then (if verifyPodman w then Some [RuntimeDocker, RuntimePodman] else Some [RuntimeDocker])
        else (if verifyPodman w then Some [RuntimePodman] else None))"
  by (simp add: GetAvailableRuntimes_def append_slice_def)

lemma GetAvailableRuntimes_verified:
  "r \<in> set (elems (GetAvailableRuntimes w f)) \<Longrightarrow> verifyRuntime w (globalDetector f) r"
  by (cases r) (auto simp: GetAvailableRuntimes_cases elems_def split: if_splits)

text \<open>
  \<^bold>\<open>C7\<close>, at the input where the code departs from it. On the bare host neither runtime
  verifies, \<^verbatim>\<open>append\<close> is never called, and \<^verbatim>\<open>GetAvailableRuntimes\<close> returns the slice as
  \<^verbatim>\<open>var available []ContainerRuntime\<close> declared it: the nil slice, of no elements.
\<close>

theorem GetAvailableRuntimes_nil_on_bare_host:
  "GetAvailableRuntimes bare_host init = None
   \<and> elems (GetAvailableRuntimes bare_host init) = []
   \<and> GetAvailableRuntimes docker_host init = Some [RuntimeDocker]"
  by (simp add: GetAvailableRuntimes_cases elems_def verifyDocker_def verifyPodman_def
      bare_host_def docker_host_def)

subsection \<open>The order of resolution\<close>

lemma autoDetectRuntime_try:
  "autoDetectRuntime w rd = try_sockets w (detectRuntimeSockets w rd)"
  by (cases "detectRuntimeSockets w rd") (simp_all add: autoDetectRuntime_def)

text \<open>
  \<^bold>\<open>C2\<close>, as the code has it. \<^verbatim>\<open>DetectAvailableRuntime\<close> returns one runtime,
  resolved in three phases in this order. (1) A preference other than unknown that verifies is returned. (2) Failing that, a
  hint of the environment other than unknown that verifies is returned. (3) Failing that, the
  result is that of auto-detection, which tries the detected sockets in their order: the
  sorted survivors of the candidate table, or the one custom socket when one is configured.
  The result is unknown exactly when all three phases fail.
\<close>

theorem DetectAvailableRuntime_order:
  "(preferredRuntime rd \<noteq> RuntimeUnknown \<and> verifyRuntime w rd (preferredRuntime rd)
      \<longrightarrow> DetectAvailableRuntime w rd = preferredRuntime rd)
   \<and> (\<not> (preferredRuntime rd \<noteq> RuntimeUnknown \<and> verifyRuntime w rd (preferredRuntime rd))
       \<and> checkEnvironmentHints w \<noteq> RuntimeUnknown
       \<and> verifyRuntime w rd (checkEnvironmentHints w)
      \<longrightarrow> DetectAvailableRuntime w rd = checkEnvironmentHints w)
   \<and> (\<not> (preferredRuntime rd \<noteq> RuntimeUnknown \<and> verifyRuntime w rd (preferredRuntime rd))
       \<and> \<not> (checkEnvironmentHints w \<noteq> RuntimeUnknown
            \<and> verifyRuntime w rd (checkEnvironmentHints w))
      \<longrightarrow> DetectAvailableRuntime w rd = autoDetectRuntime w rd)
   \<and> (DetectAvailableRuntime w rd = RuntimeUnknown
      \<longleftrightarrow> \<not> (preferredRuntime rd \<noteq> RuntimeUnknown \<and> verifyRuntime w rd (preferredRuntime rd))
          \<and> \<not> (checkEnvironmentHints w \<noteq> RuntimeUnknown
               \<and> verifyRuntime w rd (checkEnvironmentHints w))
          \<and> autoDetectRuntime w rd = RuntimeUnknown)
   \<and> autoDetectRuntime w rd
       = try_sockets w
           (if customSocket rd \<noteq> ''''
            then [\<lparr>Path = customSocket rd, Runtime = guessRuntimeFromSocket w (customSocket rd),
                   Score = 100\<rparr>]
            else sort_outer 0 (scan_candidates w candidates []))"
proof -
  have auto: "autoDetectRuntime w rd
       = try_sockets w
           (if customSocket rd \<noteq> ''''
            then [\<lparr>Path = customSocket rd, Runtime = guessRuntimeFromSocket w (customSocket rd),
                   Score = 100\<rparr>]
            else sort_outer 0 (scan_candidates w candidates []))"
    by (simp only: autoDetectRuntime_try detectRuntimeSockets_def)
  have phases: "DetectAvailableRuntime w rd
      = (if preferredRuntime rd \<noteq> RuntimeUnknown \<and> verifyRuntime w rd (preferredRuntime rd)
         then preferredRuntime rd
         else if checkEnvironmentHints w \<noteq> RuntimeUnknown
                 \<and> verifyRuntime w rd (checkEnvironmentHints w)
         then checkEnvironmentHints w
         else autoDetectRuntime w rd)"
    by (simp add: DetectAvailableRuntime_def Let_def)
  show ?thesis
    using auto by (auto simp: phases)
qed

text \<open>The phases on hosts where Docker runs: the preference for Docker is returned; a
  preference for Podman does not verify and the hint \<^verbatim>\<open>DOCKER_HOST\<close> is returned; with neither,
  auto-detection finds the system-wide socket; on the bare host all three phases fail.\<close>

theorem DetectAvailableRuntime_order_witness:
  "DetectAvailableRuntime docker_host (SetPreferredRuntime RuntimeDocker NewRuntimeDetector)
     = RuntimeDocker
   \<and> DetectAvailableRuntime (docker_host\<lparr>env := [''DOCKER_HOST'' \<mapsto> ''unix:///var/run/docker.sock'']\<rparr>)
       (SetPreferredRuntime RuntimePodman NewRuntimeDetector) = RuntimeDocker
   \<and> DetectAvailableRuntime docker_host NewRuntimeDetector = autoDetectRuntime docker_host NewRuntimeDetector
   \<and> autoDetectRuntime docker_host NewRuntimeDetector = RuntimeDocker
   \<and> DetectAvailableRuntime bare_host (SetPreferredRuntime RuntimePodman NewRuntimeDetector)
       = RuntimeUnknown"
proof -
  have vd: "verifyDocker docker_host"
    "verifyDocker (docker_host\<lparr>env := [''DOCKER_HOST'' \<mapsto> ''unix:///var/run/docker.sock'']\<rparr>)"
    "\<not> verifyPodman (docker_host\<lparr>env := [''DOCKER_HOST'' \<mapsto> ''unix:///var/run/docker.sock'']\<rparr>)"
    "\<not> verifyDocker bare_host" "\<not> verifyPodman bare_host"
    by (simp_all add: verifyDocker_def verifyPodman_def docker_host_def bare_host_def)
  have hints: "checkEnvironmentHints docker_host = RuntimeUnknown"
    "checkEnvironmentHints bare_host = RuntimeUnknown"
    "checkEnvironmentHints
       (docker_host\<lparr>env := [''DOCKER_HOST'' \<mapsto> ''unix:///var/run/docker.sock'']\<rparr>)
     = RuntimeDocker"
    by (simp_all add: checkEnvironmentHints_def Getenv_def docker_host_def bare_host_def)
  have auto: "autoDetectRuntime docker_host NewRuntimeDetector = RuntimeDocker"
    "autoDetectRuntime bare_host (SetPreferredRuntime RuntimePodman NewRuntimeDetector)
      = RuntimeUnknown"
    by code_simp+
  have pref: "preferredRuntime (SetPreferredRuntime r NewRuntimeDetector) = r"
    "preferredRuntime NewRuntimeDetector = RuntimeUnknown" for r
    by (simp_all add: SetPreferredRuntime_def NewRuntimeDetector_def)
  show ?thesis
    using vd hints auto
      DetectAvailableRuntime_order
        [of "SetPreferredRuntime RuntimeDocker NewRuntimeDetector" docker_host]
      DetectAvailableRuntime_order
        [of "SetPreferredRuntime RuntimePodman NewRuntimeDetector"
            "docker_host\<lparr>env := [''DOCKER_HOST'' \<mapsto> ''unix:///var/run/docker.sock'']\<rparr>"]
      DetectAvailableRuntime_order [of NewRuntimeDetector docker_host]
      DetectAvailableRuntime_order
        [of "SetPreferredRuntime RuntimePodman NewRuntimeDetector" bare_host]
    by (simp add: pref)
qed

text \<open>Phase 3 is not always a detection over the candidate table. On the host with both
  runtimes, with no preference and no hint, the table holds a Podman socket that verifies; yet
  with a custom socket configured that does not answer, only that socket is tried and the
  result is unknown.\<close>

theorem custom_socket_replaces_table:
  "preferredRuntime (SetCustomSocket ''/nonexistent/podman.sock'' NewRuntimeDetector)
     = RuntimeUnknown
   \<and> customSocket (SetCustomSocket ''/nonexistent/podman.sock'' NewRuntimeDetector)
     = ''/nonexistent/podman.sock''
   \<and> checkEnvironmentHints both_host = RuntimeUnknown
   \<and> try_sockets both_host (sort_outer 0 (scan_candidates both_host candidates []))
     = RuntimePodman
   \<and> autoDetectRuntime both_host (SetCustomSocket ''/nonexistent/podman.sock'' NewRuntimeDetector)
     = RuntimeUnknown
   \<and> DetectAvailableRuntime both_host
       (SetCustomSocket ''/nonexistent/podman.sock'' NewRuntimeDetector)
     = RuntimeUnknown"
proof -
  have a: "preferredRuntime (SetCustomSocket ''/nonexistent/podman.sock'' NewRuntimeDetector)
     = RuntimeUnknown"
    "customSocket (SetCustomSocket ''/nonexistent/podman.sock'' NewRuntimeDetector)
     = ''/nonexistent/podman.sock''"
    by (simp_all add: SetCustomSocket_def NewRuntimeDetector_def)
  have b: "checkEnvironmentHints both_host = RuntimeUnknown"
    by code_simp
  have c: "try_sockets both_host (sort_outer 0 (scan_candidates both_host candidates []))
     = RuntimePodman"
    by code_simp
  have d: "autoDetectRuntime both_host
      (SetCustomSocket ''/nonexistent/podman.sock'' NewRuntimeDetector) = RuntimeUnknown"
    by code_simp
  have e: "DetectAvailableRuntime both_host
       (SetCustomSocket ''/nonexistent/podman.sock'' NewRuntimeDetector) = RuntimeUnknown"
    by code_simp
  show ?thesis
    by (intro conjI a b c d e)
qed
subsection \<open>The null container\<close>

lemma head_Docker: "Contains message_head ''Docker''"
  by code_simp

lemma head_Podman: "Contains message_head ''Podman''"
  by code_simp

lemma head_Docker_install:
  "Contains message_head ''Docker:  https://docs.docker.com/get-docker/''"
  by code_simp

lemma head_Podman_install:
  "Contains message_head ''Podman:  https://podman.io/getting-started/installation''"
  by code_simp

lemma GetHelpfulErrorMessage_shape:
  "\<exists>status. GetHelpfulErrorMessage w rd = message_head @ status @ message_tail"
  by (auto simp: GetHelpfulErrorMessage_def Let_def split: prod.splits)

lemma no_runtime_error_Contains:
  assumes "Contains message_head sub"
  shows "Contains (no_runtime_error w f) sub"
proof -
  obtain status where "GetHelpfulErrorMessage w (globalDetector f)
      = message_head @ status @ message_tail"
    using GetHelpfulErrorMessage_shape by blast
  then have "no_runtime_error w f
      = (''no container runtime available'' @ [nl, nl])
        @ (message_head @ (status @ message_tail))"
    by (simp add: no_runtime_error_def GetRuntimeDetectionError_def)
  moreover have "Contains (message_head @ (status @ message_tail)) sub"
    using assms by (rule Contains_append_left)
  ultimately show ?thesis
    by (simp only: Contains_append_right)
qed

lemma no_runtime_error_nonempty: "no_runtime_error w f \<noteq> ''''"
  by (simp add: no_runtime_error_def)

lemma null_op_fails: "null_op w f op = Inl (no_runtime_error w f)"
  by (cases op)
     (simp_all add: null_Create_def null_Copy_def null_CopyTarStream_def null_CopyDir_def
        null_GetContainerArchive_def null_Pull_def null_Start_def null_Exec_def
        null_UpdateFromEnv_def null_UpdateFromImageEnv_def null_Remove_def null_Close_def)

lemma try_sockets_none:
  "\<forall>s \<in> set sockets. \<not> verifySocketConnection w s \<Longrightarrow> try_sockets w sockets = RuntimeUnknown"
  by (induction sockets) simp_all

lemma NewContainer_Unknown:
  "fst (getSelectedRuntime w f) = RuntimeUnknown \<Longrightarrow>
   fst (NewContainer w f input) = NullContainer input"
  by (cases "getSelectedRuntime w f") (simp add: NewContainer_def newNullContainer_def)

lemma getSelectedRuntime_nothing_verifies:
  assumes "runtimeOverride f = RuntimeUnknown"
    and "\<not> verifyDocker w" and "\<not> verifyPodman w"
    and "\<forall>s \<in> set (detectRuntimeSockets w
            (globalDetector (configureDetectorFromEnvironment w f))).
          \<not> verifySocketConnection w s"
  shows "fst (getSelectedRuntime w f) = RuntimeUnknown"
proof -
  have v: "\<not> verifyRuntime w rd r" for rd r
    using assms(2,3) by (cases r) simp_all
  have "autoDetectRuntime w (globalDetector (configureDetectorFromEnvironment w f))
      = RuntimeUnknown"
    using assms(4) by (simp add: autoDetectRuntime_try try_sockets_none)
  then show ?thesis
    using assms(1) v by (simp add: getSelectedRuntime_def DetectAvailableRuntime_def Let_def)
qed

text \<open>
  \<^bold>\<open>C1\<close>. \<^verbatim>\<open>NewContainer\<close> always returns a handle. When resolution yields unknown, and so
  in particular when the override is unset and neither runtime nor any detected socket
  verifies, the handle is the null container on the caller's input. Each of its operations
  that returns an error (Create, Copy, CopyTarStream, CopyDir, Pull, Start, Exec,
  UpdateFromEnv, UpdateFromImageEnv, Remove, Close, and GetContainerArchive too) fails,
  on any host, with a non-empty message that names Docker and Podman and carries the install
  line of each. Its health is unhealthy, and its metadata are the Linux defaults: paths
  unchanged, \<^verbatim>\<open>/opt/act\<close>, \<^verbatim>\<open>PATH\<close> with the usual directories, a runner context for
  \<^verbatim>\<open>linux\<close> on \<^verbatim>\<open>x64\<close>, a case-sensitive environment, the log writers returned as given.
\<close>

theorem NewContainer_null_adapter:
  "(fst (getSelectedRuntime w f) = RuntimeUnknown
      \<longrightarrow> fst (NewContainer w f input) = NullContainer input)
   \<and> (runtimeOverride f = RuntimeUnknown \<and> \<not> verifyDocker w \<and> \<not> verifyPodman w
       \<and> (\<forall>s \<in> set (detectRuntimeSockets w
                (globalDetector (configureDetectorFromEnvironment w f))).
             \<not> verifySocketConnection w s)
      \<longrightarrow> fst (NewContainer w f input) = NullContainer input)
   \<and> (\<forall>w' f' op. \<exists>msg.
         call docker_op podman_op w' f' (NullContainer input) op = Inl msg
         \<and> msg = no_runtime_error w' f'
         \<and> msg \<noteq> ''''
         \<and> Contains msg ''Docker'' \<and> Contains msg ''Podman''
         \<and> Contains msg ''Docker:  https://docs.docker.com/get-docker/''
         \<and> Contains msg ''Podman:  https://podman.io/getting-started/installation'')
   \<and> GetHealth docker_health podman_health (NullContainer input) = HealthUnHealthy
   \<and> null_ToContainerPath path = path
   \<and> null_GetActPath = ''/opt/act''
   \<and> null_GetPathVariableName = ''PATH''
   \<and> null_DefaultPathVariable = ''/usr/local/sbin:/usr/local/bin:/usr/sbin:/usr/bin:/sbin:/bin''
   \<and> null_GetRunnerContext ''os'' = Some ''linux''
   \<and> null_GetRunnerContext ''arch'' = Some ''x64''
   \<and> null_GetRunnerContext ''temp'' = Some ''/tmp''
   \<and> null_GetRunnerContext ''tool_cache'' = Some ''/opt/hostedtoolcache''
   \<and> null_GetRunnerContext ''action_path'' = Some ''/github/workspace''
   \<and> null_GetRunnerContext ''workspace'' = Some ''/github/workspace''
   \<and> \<not> null_IsEnvironmentCaseInsensitive
   \<and> null_ReplaceLogWriter stdout stderr = (stdout, stderr)"
proof -
  have a: "fst (getSelectedRuntime w f) = RuntimeUnknown
      \<longrightarrow> fst (NewContainer w f input) = NullContainer input"
    by (simp add: NewContainer_Unknown)
  have b: "runtimeOverride f = RuntimeUnknown \<and> \<not> verifyDocker w \<and> \<not> verifyPodman w
       \<and> (\<forall>s \<in> set (detectRuntimeSockets w
                (globalDetector (configureDetectorFromEnvironment w f))).
             \<not> verifySocketConnection w s)
      \<longrightarrow> fst (NewContainer w f input) = NullContainer input"
    using getSelectedRuntime_nothing_verifies [of f w] NewContainer_Unknown [of w f input]
    by blast
  have c: "\<forall>w' f' op. \<exists>msg.
         call docker_op podman_op w' f' (NullContainer input) op = Inl msg
         \<and> msg = no_runtime_error w' f'
         \<and> msg \<noteq> ''''
         \<and> Contains msg ''Docker'' \<and> Contains msg ''Podman''
         \<and> Contains msg ''Docker:  https://docs.docker.com/get-docker/''
         \<and> Contains msg ''Podman:  https://podman.io/getting-started/installation''"
    by (simp add: null_op_fails no_runtime_error_nonempty no_runtime_error_Contains
        head_Docker head_Podman head_Docker_install head_Podman_install)
  have d: "GetHealth docker_health podman_health (NullContainer input) = HealthUnHealthy"
    by (simp add: null_GetHealth_def)
  have e: "null_ToContainerPath path = path" "null_GetActPath = ''/opt/act''"
    "null_GetPathVariableName = ''PATH''"
    "null_DefaultPathVariable = ''/usr/local/sbin:/usr/local/bin:/usr/sbin:/usr/bin:/sbin:/bin''"
    "\<not> null_IsEnvironmentCaseInsensitive"
    "null_ReplaceLogWriter stdout stderr = (stdout, stderr)"
    by (simp_all add: null_ToContainerPath_def null_GetActPath_def null_GetPathVariableName_def
        null_DefaultPathVariable_def null_IsEnvironmentCaseInsensitive_def
        null_ReplaceLogWriter_def)
  have g: "null_GetRunnerContext ''os'' = Some ''linux''"
    "null_GetRunnerContext ''arch'' = Some ''x64''"
    "null_GetRunnerContext ''temp'' = Some ''/tmp''"
    "null_GetRunnerContext ''tool_cache'' = Some ''/opt/hostedtoolcache''"
    "null_GetRunnerContext ''action_path'' = Some ''/github/workspace''"
    "null_GetRunnerContext ''workspace'' = Some ''/github/workspace''"
    by (simp_all add: null_GetRunnerContext_def)
  from a b c d e g show ?thesis
    by blast
qed

text \<open>On the bare host the factory returns the null container, and creating the container
  fails with the message of that host.\<close>

theorem NewContainer_null_adapter_witness:
  "fst (getSelectedRuntime bare_host init) = RuntimeUnknown
   \<and> fst (NewContainer bare_host init ''test:latest'') = NullContainer ''test:latest''
   \<and> call (\<lambda>i op. Inr ()) (\<lambda>i op. Inr ()) bare_host init
        (fst (NewContainer bare_host init ''test:latest'')) Create
      = Inl (no_runtime_error bare_host init)
   \<and> Contains (no_runtime_error bare_host init) ''Docker''
   \<and> Contains (no_runtime_error bare_host init) ''Podman''"
proof -
  have sel: "fst (getSelectedRuntime bare_host init) = RuntimeUnknown"
    by code_simp
  note t = NewContainer_null_adapter
    [of bare_host init "''test:latest''" "\<lambda>i op. Inr ()" "\<lambda>i op. Inr ()"]
  from sel t [THEN conjunct1] have null: "fst (NewContainer bare_host init ''test:latest'')
      = NullContainer ''test:latest''"
    by simp
  from t [THEN conjunct2, THEN conjunct2, THEN conjunct1, rule_format, of bare_host init Create]
  obtain msg where
    "call (\<lambda>i op. Inr ()) (\<lambda>i op. Inr ()) bare_host init (NullContainer ''test:latest'') Create
       = Inl msg"
    "msg = no_runtime_error bare_host init" "Contains msg ''Docker''" "Contains msg ''Podman''"
    by blast
  with sel null show ?thesis
    by simp
qed
subsection \<open>The sort of the detected sockets\<close>

lemma length_sort_inner [simp]: "length (sort_inner i j xs) = length xs"
proof (induction i j xs rule: sort_inner.induct)
  case (1 i j xs)
  show ?case
  proof (cases "j < length xs")
    case True
    with "1" show ?thesis
      by (subst sort_inner.simps) (simp add: swap_def)
  next
    case False
    then show ?thesis
      by (subst sort_inner.simps) simp
  qed
qed

text \<open>The inner loop changes nothing when no later element has a greater score than the
  one at \<open>i\<close>.\<close>

lemma sort_inner_noop:
  "\<forall>k. j \<le> k \<and> k < length xs \<longrightarrow> Score (xs ! k) \<le> Score (xs ! i) \<Longrightarrow> sort_inner i j xs = xs"
proof (induction i j xs rule: sort_inner.induct)
  case (1 i j xs)
  show ?case
  proof (cases "j < length xs")
    case True
    have keep: "\<not> Score (xs ! i) < Score (xs ! j)"
      using "1.prems" True by (simp add: not_less)
    have "sort_inner i (j + 1) xs = xs"
      using "1.IH" [OF True] "1.prems" keep by simp
    with True keep show ?thesis
      by (subst sort_inner.simps) simp
  next
    case False
    then show ?thesis
      by (subst sort_inner.simps) simp
  qed
qed

text \<open>When only the last element has a greater score than the one at \<open>i\<close>, the inner loop
  swaps these two.\<close>

lemma sort_inner_last:
  "j < length xs \<Longrightarrow>
   \<forall>k. j \<le> k \<and> k + 1 < length xs \<longrightarrow> Score (xs ! k) \<le> Score (xs ! i) \<Longrightarrow>
   Score (xs ! i) < Score (xs ! (length xs - 1)) \<Longrightarrow>
   sort_inner i j xs = swap i (length xs - 1) xs"
proof (induction i j xs rule: sort_inner.induct)
  case (1 i j xs)
  show ?case
  proof (cases "j + 1 < length xs")
    case True
    have keep: "\<not> Score (xs ! i) < Score (xs ! j)"
      using "1.prems"(2) True by (simp add: not_less)
    have "sort_inner i (j + 1) xs = swap i (length xs - 1) xs"
      using "1.IH" [OF "1.prems"(1)] keep True "1.prems"(2,3) by simp
    with "1.prems"(1) keep show ?thesis
      by (subst sort_inner.simps) simp
  next
    case False
    with "1.prems"(1) have j: "j = length xs - 1"
      by simp
    have "sort_inner i j xs = sort_inner i (j + 1) (swap i j xs)"
      using "1.prems"(1,3) j by (subst sort_inner.simps) simp
    also have "\<dots> = swap i j xs"
      using False by (subst sort_inner.simps) (simp add: swap_def)
    finally show ?thesis
      using j by simp
  qed
qed

lemma swap_first_last:
  "swap (length pre) (length (pre @ d # ds @ [e]) - 1) (pre @ d # ds @ [e]) = pre @ e # ds @ [d]"
  by (simp add: swap_def list_update_append nth_append)

lemma sort_outer_step:
  "i + 1 < length xs \<Longrightarrow> sort_outer i xs = sort_outer (i + 1) (sort_inner i (i + 1) xs)"
  by (subst sort_outer.simps) simp

lemma sort_outer_done: "\<not> i + 1 < length xs \<Longrightarrow> sort_outer i xs = xs"
  by (subst sort_outer.simps) simp

text \<open>A list in descending order stays as it is.\<close>

lemma sort_outer_sorted:
  "sorted_wrt (\<lambda>a b. Score b \<le> Score a) ds \<Longrightarrow> sort_outer (length pre) (pre @ ds) = pre @ ds"
proof (induction ds arbitrary: pre)
  case Nil
  then show ?case by (simp add: sort_outer_done)
next
  case (Cons d ds)
  show ?case
  proof (cases "ds = []")
    case True
    then show ?thesis by (simp add: sort_outer_done)
  next
    case False
    then have step: "length pre + 1 < length (pre @ d # ds)"
      by (cases ds) simp_all
    have "\<forall>k. length pre + 1 \<le> k \<and> k < length (pre @ d # ds)
            \<longrightarrow> Score ((pre @ d # ds) ! k) \<le> Score ((pre @ d # ds) ! length pre)"
      using Cons.prems by (auto simp: nth_append nth_Cons split: nat.splits)
    then have "sort_inner (length pre) (length pre + 1) (pre @ d # ds) = pre @ d # ds"
      by (rule sort_inner_noop)
    then have "sort_outer (length pre) (pre @ d # ds)
        = sort_outer (length (pre @ [d])) ((pre @ [d]) @ ds)"
      using sort_outer_step [OF step] by simp
    also have "\<dots> = (pre @ [d]) @ ds"
      using Cons.prems by (intro Cons.IH) simp
    finally show ?thesis by simp
  qed
qed

text \<open>A list in descending order that is followed by one more element.\<close>

lemma sort_outer_place:
  "sorted_wrt (\<lambda>a b. Score b \<le> Score a) ds \<Longrightarrow>
   sort_outer (length pre) (pre @ ds @ [e]) = pre @ place ds e"
proof (induction ds arbitrary: pre e)
  case Nil
  then show ?case by (simp add: sort_outer_done)
next
  case (Cons d ds)
  let ?xs = "pre @ d # ds @ [e]"
  have step: "length pre + 1 < length ?xs"
    by simp
  have sorted_ds: "sorted_wrt (\<lambda>a b. Score b \<le> Score a) ds"
    using Cons.prems by simp
  have below_d: "\<forall>x \<in> set ds. Score x \<le> Score d"
    using Cons.prems by simp
  show ?case
  proof (cases "Score e \<le> Score d")
    case True
    have "\<forall>k. length pre + 1 \<le> k \<and> k < length ?xs
            \<longrightarrow> Score (?xs ! k) \<le> Score (?xs ! length pre)"
      using below_d True by (auto simp: nth_append nth_Cons split: nat.splits)
    then have "sort_inner (length pre) (length pre + 1) ?xs = ?xs"
      by (rule sort_inner_noop)
    then have "sort_outer (length pre) ?xs
        = sort_outer (length (pre @ [d])) ((pre @ [d]) @ ds @ [e])"
      using sort_outer_step [OF step] by simp
    also have "\<dots> = (pre @ [d]) @ place ds e"
      using sorted_ds by (rule Cons.IH)
    finally show ?thesis
      using True by simp
  next
    case False
    have between: "\<forall>k. length pre + 1 \<le> k \<and> k + 1 < length ?xs
            \<longrightarrow> Score (?xs ! k) \<le> Score (?xs ! length pre)"
      using below_d by (auto simp: nth_append nth_Cons split: nat.splits)
    have last: "Score (?xs ! length pre) < Score (?xs ! (length ?xs - 1))"
      using False by (simp add: nth_append)
    have "sort_inner (length pre) (length pre + 1) ?xs = swap (length pre) (length ?xs - 1) ?xs"
      using step between last by (rule sort_inner_last)
    also have "\<dots> = pre @ e # ds @ [d]"
      by (rule swap_first_last)
    finally have "sort_outer (length pre) ?xs
        = sort_outer (length (pre @ [e])) ((pre @ [e]) @ ds @ [d])"
      using sort_outer_step [OF step] by simp
    also have "\<dots> = (pre @ [e]) @ place ds d"
      using sorted_ds by (rule Cons.IH)
    finally show ?thesis
      using False by simp
  qed
qed
lemma set_place: "set (place ds e) = insert e (set ds)"
  by (induction ds arbitrary: e) auto

lemma sorted_place:
  "sorted_wrt (\<lambda>a b. Score b \<le> Score a) ds \<Longrightarrow> sorted_wrt (\<lambda>a b. Score b \<le> Score a) (place ds e)"
proof (induction ds arbitrary: e)
  case Nil
  then show ?case by simp
next
  case (Cons d ds)
  then show ?case
    by (auto simp: set_place intro: order_trans)
qed

text \<open>Below a strictly descending list its head is placed at the front again.\<close>

lemma place_below:
  "sorted_wrt (\<lambda>a b. Score b < Score a) (d # ds) \<Longrightarrow> place ds d = d # ds"
  by (induction ds arbitrary: d) auto

text \<open>On a strictly descending list the placement keeps elements of equal score in their
  order.\<close>

lemma filter_place:
  "sorted_wrt (\<lambda>a b. Score b < Score a) ds \<Longrightarrow>
   filter (\<lambda>x. Score x = k) (place ds e) = filter (\<lambda>x. Score x = k) (ds @ [e])"
proof (induction ds arbitrary: e)
  case Nil
  then show ?case by simp
next
  case (Cons d ds)
  show ?case
  proof (cases "Score e \<le> Score d")
    case True
    with Cons show ?thesis by simp
  next
    case False
    have "place ds d = d # ds"
      using Cons.prems by (rule place_below)
    moreover have "\<forall>x \<in> set (d # ds). Score x < Score e"
      using Cons.prems False by auto
    then have "Score e = k \<Longrightarrow> filter (\<lambda>x. Score x = k) (d # ds) = []"
      by (auto simp: filter_empty_conv)
    ultimately show ?thesis
      using False by (cases "Score e = k") auto
  qed
qed

lemma strict_imp_sorted:
  "sorted_wrt (\<lambda>a b. Score b < Score a) ds \<Longrightarrow> sorted_wrt (\<lambda>a b. Score b \<le> Score a) ds"
  by (rule sorted_wrt_mono_rel [where P = "\<lambda>a b. Score b < Score a"]) auto

subsection \<open>Discovery over the candidate table\<close>

lemma scan_candidates_filter:
  "scan_candidates w cs available = available @ map (expanded w) (filter (discovered w) cs)"
  by (induction cs arbitrary: available) (simp_all add: Let_def expanded_def discovered_def)

lemma Score_expanded [simp]: "Score (expanded w c) = Score c"
  by (simp add: expanded_def)

lemma Runtime_expanded [simp]: "Runtime (expanded w c) = Runtime c"
  by (simp add: expanded_def)

lemma Path_expanded [simp]: "Path (expanded w c) = expand_env w (Path c)"
  by (simp add: expanded_def)

lemma candidates_split: "candidates = butlast candidates @ [last candidates]"
  by (simp add: candidates_def)

lemma candidates_descending: "sorted_wrt (\<lambda>a b. Score b < Score a) (butlast candidates)"
  by (simp add: candidates_def)

lemma survivors_descending:
  "sorted_wrt (\<lambda>a b. Score b < Score a)
     (map (expanded w) (filter (discovered w) (butlast candidates)))"
proof -
  have "sorted_wrt (\<lambda>a b. Score b < Score a) (filter (discovered w) (butlast candidates))"
    using candidates_descending by (rule sorted_wrt_filter)
  then show ?thesis
    by (simp add: sorted_wrt_map)
qed

lemma scan_candidates_split:
  "scan_candidates w candidates []
     = map (expanded w) (filter (discovered w) (butlast candidates))
       @ (if discovered w (last candidates) then [expanded w (last candidates)] else [])"
proof -
  have "scan_candidates w candidates []
      = map (expanded w) (filter (discovered w) (butlast candidates @ [last candidates]))"
    using candidates_split by (simp add: scan_candidates_filter)
  then show ?thesis by simp
qed

text \<open>With no custom socket, the detected sockets are the survivors of the table in
  descending order of score, and survivors of equal score keep the order of the table.\<close>

lemma detect_table_sorted:
  assumes "customSocket rd = ''''"
  shows "sorted_wrt (\<lambda>a b. Score b \<le> Score a) (detectRuntimeSockets w rd)"
    and "filter (\<lambda>x. Score x = k) (detectRuntimeSockets w rd)
           = filter (\<lambda>x. Score x = k) (scan_candidates w candidates [])"
proof -
  let ?ds = "map (expanded w) (filter (discovered w) (butlast candidates))"
  let ?e = "expanded w (last candidates)"
  have strict: "sorted_wrt (\<lambda>a b. Score b < Score a) ?ds"
    by (rule survivors_descending)
  then have desc: "sorted_wrt (\<lambda>a b. Score b \<le> Score a) ?ds"
    by (rule strict_imp_sorted)
  have detect: "detectRuntimeSockets w rd
      = (if discovered w (last candidates) then place ?ds ?e else ?ds)"
  proof (cases "discovered w (last candidates)")
    case True
    have "sort_outer (length ([] :: RuntimeSocket list)) ([] @ ?ds @ [?e]) = [] @ place ?ds ?e"
      using desc by (rule sort_outer_place)
    with True assms show ?thesis
      by (simp add: detectRuntimeSockets_def scan_candidates_split)
  next
    case False
    have "sort_outer (length ([] :: RuntimeSocket list)) ([] @ ?ds) = [] @ ?ds"
      using desc by (rule sort_outer_sorted)
    with False assms show ?thesis
      by (simp add: detectRuntimeSockets_def scan_candidates_split)
  qed
  show "sorted_wrt (\<lambda>a b. Score b \<le> Score a) (detectRuntimeSockets w rd)"
    using desc by (simp add: detect sorted_place)
  show "filter (\<lambda>x. Score x = k) (detectRuntimeSockets w rd)
           = filter (\<lambda>x. Score x = k) (scan_candidates w candidates [])"
    using strict by (simp add: detect scan_candidates_split filter_place)
qed

lemma detect_table_set:
  assumes "customSocket rd = ''''"
  shows "set (detectRuntimeSockets w rd) = set (scan_candidates w candidates [])"
proof -
  have "x \<in> set (filter (\<lambda>y. Score y = Score x) (detectRuntimeSockets w rd))
      \<longleftrightarrow> x \<in> set (filter (\<lambda>y. Score y = Score x) (scan_candidates w candidates []))" for x
    using detect_table_sorted(2) [OF assms] by simp
  then show ?thesis
    by auto
qed
subsection \<open>The socket that auto-detection selects\<close>

lemma try_sockets_first:
  "\<forall>y \<in> set before. \<not> verifySocketConnection w y \<Longrightarrow> verifySocketConnection w c \<Longrightarrow>
   try_sockets w (before @ c # rest) = Runtime c"
  by (induction before) simp_all

text \<open>Trying the sockets in the order of a list that is sorted by descending score and keeps
  the sockets of equal score in the order of \<open>av\<close> returns the runtime of the socket of \<open>av\<close>
  that verifies with the highest score, the first of these in \<open>av\<close>.\<close>

lemma first_verified_is_best:
  assumes sorted: "sorted_wrt (\<lambda>a b. Score b \<le> Score a) sockets"
    and stable: "\<And>k. filter (\<lambda>x. Score x = k) sockets = filter (\<lambda>x. Score x = k) av"
    and some: "\<exists>c \<in> set av. verifySocketConnection w c"
  shows "\<exists>i < length av. verifySocketConnection w (av ! i)
           \<and> try_sockets w sockets = Runtime (av ! i)
           \<and> (\<forall>j < length av. verifySocketConnection w (av ! j)
                  \<longrightarrow> Score (av ! j) \<le> Score (av ! i))
           \<and> (\<forall>j < i. verifySocketConnection w (av ! j) \<longrightarrow> Score (av ! j) < Score (av ! i))"
proof -
  have same_set: "set sockets = set av"
  proof -
    have "x \<in> set (filter (\<lambda>y. Score y = Score x) sockets)
        \<longleftrightarrow> x \<in> set (filter (\<lambda>y. Score y = Score x) av)" for x
      by (simp only: stable)
    then show ?thesis by auto
  qed
  from some same_set have "\<exists>c \<in> set sockets. verifySocketConnection w c"
    by simp
  then obtain before c rest where split: "sockets = before @ c # rest"
    and c: "verifySocketConnection w c"
    and before: "\<forall>y \<in> set before. \<not> verifySocketConnection w y"
    using split_list_first_prop [of sockets "verifySocketConnection w"] by blast
  have result: "try_sockets w sockets = Runtime c"
    using before c by (simp add: split try_sockets_first)
  have rest: "\<forall>x \<in> set rest. Score x \<le> Score c"
    using sorted by (simp add: split sorted_wrt_append)
  have highest: "Score x \<le> Score c" if "x \<in> set av" "verifySocketConnection w x" for x
  proof -
    from that same_set have "x \<in> set before \<or> x = c \<or> x \<in> set rest"
      by (auto simp: split)
    with that(2) before rest show ?thesis by auto
  qed
  have "filter (\<lambda>x. Score x = Score c \<and> verifySocketConnection w x) av
      = filter (verifySocketConnection w) (filter (\<lambda>x. Score x = Score c) sockets)"
    by (simp add: stable)
  also have "\<dots> = c # filter (verifySocketConnection w) (filter (\<lambda>x. Score x = Score c) rest)"
    using before c by (simp add: split filter_empty_conv)
  finally obtain us vs where av: "av = us @ c # vs"
    and us: "\<forall>u \<in> set us. \<not> (Score u = Score c \<and> verifySocketConnection w u)"
    by (auto simp: filter_eq_Cons_iff)
  let ?i = "length us"
  have i: "?i < length av" "av ! ?i = c"
    by (simp_all add: av)
  have earlier: "Score (av ! j) < Score (av ! ?i)" if "j < ?i" "verifySocketConnection w (av ! j)" for j
  proof -
    from that(1) have j: "av ! j = us ! j" "us ! j \<in> set us"
      by (simp_all add: av nth_append)
    then have "av ! j \<in> set av"
      by (simp add: av)
    then have "Score (av ! j) \<le> Score c"
      using that(2) by (rule highest)
    moreover from j us that(2) have "Score (av ! j) \<noteq> Score c"
      by auto
    ultimately show ?thesis
      by (simp add: i)
  qed
  have "verifySocketConnection w (av ! ?i)" "try_sockets w sockets = Runtime (av ! ?i)"
    using c result by (simp_all add: i)
  moreover have "\<forall>j < length av. verifySocketConnection w (av ! j)
      \<longrightarrow> Score (av ! j) \<le> Score (av ! ?i)"
    using highest by (simp add: i)
  ultimately show ?thesis
    using i(1) earlier by blast
qed

lemma socketExists_iff:
  "socketExists w p
     \<longleftrightarrow> (\<exists>mode. lstat w p = Some mode
            \<and> (and mode ModeSocket \<noteq> 0 \<or> and mode ModeNamedPipe \<noteq> 0))"
  by (simp add: socketExists_def split: option.splits)

text \<open>
  \<^bold>\<open>C3\<close>, as the code has it. With no custom socket configured: the discovered candidates
  are the entries of the table, in the order of the table, whose expanded path exists as a
  socket or a named pipe; the detected sockets are exactly these; and whenever one of them
  passes the live verification, auto-detection returns the runtime of the discovered
  candidate that verifies with the highest score, and among verifying candidates of that
  score of the first in the order of the table; when none verifies it returns unknown. A path
  that does not exist, or whose mode has neither the socket bit nor the named-pipe bit, as for
  an ordinary file, is not a socket that exists. With a custom socket configured, that socket
  is the only candidate: it is taken as it is given, neither expanded nor tested for existence,
  with the runtime guessed from its name, and auto-detection returns that runtime when the
  socket verifies and unknown otherwise.
\<close>

theorem autoDetectRuntime_best_candidate:
  "(customSocket rd = '''' \<longrightarrow>
      scan_candidates w candidates [] = map (expanded w) (filter (discovered w) candidates)
      \<and> set (detectRuntimeSockets w rd) = set (scan_candidates w candidates [])
      \<and> (\<forall>c. c \<in> set (detectRuntimeSockets w rd)
             \<longleftrightarrow> (\<exists>t \<in> set candidates. c = expanded w t \<and> socketExists w (Path c)))
      \<and> ((\<exists>c \<in> set (scan_candidates w candidates []). verifySocketConnection w c) \<longrightarrow>
           (\<exists>i < length (scan_candidates w candidates []).
               verifySocketConnection w (scan_candidates w candidates [] ! i)
               \<and> autoDetectRuntime w rd = Runtime (scan_candidates w candidates [] ! i)
               \<and> (\<forall>j < length (scan_candidates w candidates []).
                      verifySocketConnection w (scan_candidates w candidates [] ! j)
                      \<longrightarrow> Score (scan_candidates w candidates [] ! j)
                            \<le> Score (scan_candidates w candidates [] ! i))
               \<and> (\<forall>j < i. verifySocketConnection w (scan_candidates w candidates [] ! j)
                      \<longrightarrow> Score (scan_candidates w candidates [] ! j)
                            < Score (scan_candidates w candidates [] ! i))))
      \<and> ((\<forall>c \<in> set (scan_candidates w candidates []). \<not> verifySocketConnection w c)
           \<longrightarrow> autoDetectRuntime w rd = RuntimeUnknown))
   \<and> (\<forall>p. lstat w p = None \<longrightarrow> \<not> socketExists w p)
   \<and> (\<forall>p mode. lstat w p = Some mode \<and> and mode ModeSocket = 0 \<and> and mode ModeNamedPipe = 0
          \<longrightarrow> \<not> socketExists w p)
   \<and> (customSocket rd \<noteq> '''' \<longrightarrow>
        detectRuntimeSockets w rd
          = [\<lparr>Path = customSocket rd, Runtime = guessRuntimeFromSocket w (customSocket rd),
              Score = 100\<rparr>]
        \<and> autoDetectRuntime w rd
          = (if verifySocketConnection w
                  \<lparr>Path = customSocket rd, Runtime = guessRuntimeFromSocket w (customSocket rd),
                   Score = 100\<rparr>
             then guessRuntimeFromSocket w (customSocket rd) else RuntimeUnknown))"
proof (intro conjI impI)
  show "scan_candidates w candidates [] = map (expanded w) (filter (discovered w) candidates)"
    by (simp add: scan_candidates_filter)
next
  assume "customSocket rd = ''''"
  then show "set (detectRuntimeSockets w rd) = set (scan_candidates w candidates [])"
    by (rule detect_table_set)
next
  assume "customSocket rd = ''''"
  then have "set (detectRuntimeSockets w rd) = set (scan_candidates w candidates [])"
    by (rule detect_table_set)
  then show "\<forall>c. c \<in> set (detectRuntimeSockets w rd)
             \<longleftrightarrow> (\<exists>t \<in> set candidates. c = expanded w t \<and> socketExists w (Path c))"
    by (auto simp: scan_candidates_filter discovered_def)
next
  assume table: "customSocket rd = ''''"
    and some: "\<exists>c \<in> set (scan_candidates w candidates []). verifySocketConnection w c"
  have "\<exists>i < length (scan_candidates w candidates []).
               verifySocketConnection w (scan_candidates w candidates [] ! i)
               \<and> try_sockets w (detectRuntimeSockets w rd)
                   = Runtime (scan_candidates w candidates [] ! i)
               \<and> (\<forall>j < length (scan_candidates w candidates []).
                      verifySocketConnection w (scan_candidates w candidates [] ! j)
                      \<longrightarrow> Score (scan_candidates w candidates [] ! j)
                            \<le> Score (scan_candidates w candidates [] ! i))
               \<and> (\<forall>j < i. verifySocketConnection w (scan_candidates w candidates [] ! j)
                      \<longrightarrow> Score (scan_candidates w candidates [] ! j)
                            < Score (scan_candidates w candidates [] ! i))"
    using detect_table_sorted(1) [OF table] detect_table_sorted(2) [OF table] some
    by (rule first_verified_is_best)
  then show "\<exists>i < length (scan_candidates w candidates []).
               verifySocketConnection w (scan_candidates w candidates [] ! i)
               \<and> autoDetectRuntime w rd = Runtime (scan_candidates w candidates [] ! i)
               \<and> (\<forall>j < length (scan_candidates w candidates []).
                      verifySocketConnection w (scan_candidates w candidates [] ! j)
                      \<longrightarrow> Score (scan_candidates w candidates [] ! j)
                            \<le> Score (scan_candidates w candidates [] ! i))
               \<and> (\<forall>j < i. verifySocketConnection w (scan_candidates w candidates [] ! j)
                      \<longrightarrow> Score (scan_candidates w candidates [] ! j)
                            < Score (scan_candidates w candidates [] ! i))"
    by (simp only: autoDetectRuntime_try)
next
  assume table: "customSocket rd = ''''"
    and none: "\<forall>c \<in> set (scan_candidates w candidates []). \<not> verifySocketConnection w c"
  then have "\<forall>c \<in> set (detectRuntimeSockets w rd). \<not> verifySocketConnection w c"
    by (simp add: detect_table_set)
  then show "autoDetectRuntime w rd = RuntimeUnknown"
    by (simp add: autoDetectRuntime_try try_sockets_none)
next
  show "\<forall>p. lstat w p = None \<longrightarrow> \<not> socketExists w p"
    by (simp add: socketExists_def)
next
  show "\<forall>p mode. lstat w p = Some mode \<and> and mode ModeSocket = 0 \<and> and mode ModeNamedPipe = 0
          \<longrightarrow> \<not> socketExists w p"
    by (simp add: socketExists_def)
next
  assume "customSocket rd \<noteq> ''''"
  then show "detectRuntimeSockets w rd
          = [\<lparr>Path = customSocket rd, Runtime = guessRuntimeFromSocket w (customSocket rd),
              Score = 100\<rparr>]"
    by (simp add: detectRuntimeSockets_def)
next
  assume "customSocket rd \<noteq> ''''"
  then show "autoDetectRuntime w rd
          = (if verifySocketConnection w
                  \<lparr>Path = customSocket rd, Runtime = guessRuntimeFromSocket w (customSocket rd),
                   Score = 100\<rparr>
             then guessRuntimeFromSocket w (customSocket rd) else RuntimeUnknown)"
    by (simp add: autoDetectRuntime_try detectRuntimeSockets_def)
qed
text \<open>On the host with both runtimes the table leaves two candidates, the ordinary file is
  not among them, and the theorem gives Podman, whose socket has the higher score.\<close>

lemma both_host_sockets:
  "socketExists both_host p
     \<longleftrightarrow> p = ''/run/user/1000/podman/podman.sock'' \<or> p = ''/var/run/docker.sock''"
  by (simp add: socketExists_def both_host_def ModeSocket_def ModeNamedPipe_def)

lemma both_host_scan:
  "scan_candidates both_host candidates []
     = [\<lparr>Path = ''/run/user/1000/podman/podman.sock'', Runtime = RuntimePodman, Score = 95\<rparr>,
        \<lparr>Path = ''/var/run/docker.sock'', Runtime = RuntimeDocker, Score = 80\<rparr>]"
proof -
  have "expand_env both_host = expand_user"
    by (simp add: both_host_def)
  then show ?thesis
    by (simp add: candidates_def both_host_sockets expand_user_def backslash_def Let_def)
qed

lemma both_host_verify:
  "verifySocketConnection both_host
     \<lparr>Path = ''/run/user/1000/podman/podman.sock'', Runtime = RuntimePodman, Score = 95\<rparr>"
  "verifySocketConnection both_host
     \<lparr>Path = ''/var/run/docker.sock'', Runtime = RuntimeDocker, Score = 80\<rparr>"
  by (simp_all add: verifySocketConnection_def HasPrefix_def pipe_prefix_def backslash_def
      both_host_def)

theorem autoDetectRuntime_best_candidate_witness:
  "customSocket NewRuntimeDetector = ''''
   \<and> scan_candidates both_host candidates []
       = [\<lparr>Path = ''/run/user/1000/podman/podman.sock'', Runtime = RuntimePodman, Score = 95\<rparr>,
          \<lparr>Path = ''/var/run/docker.sock'', Runtime = RuntimeDocker, Score = 80\<rparr>]
   \<and> \<not> socketExists both_host ''/home/act/.colima/docker.sock''
   \<and> autoDetectRuntime both_host NewRuntimeDetector = RuntimePodman"
proof -
  let ?av = "scan_candidates both_host candidates []"
  have custom: "customSocket NewRuntimeDetector = ''''"
    by (simp add: NewRuntimeDetector_def)
  have some: "\<exists>c \<in> set ?av. verifySocketConnection both_host c"
    using both_host_verify by (simp add: both_host_scan)
  from autoDetectRuntime_best_candidate [of NewRuntimeDetector both_host] custom some
  obtain i where i: "i < length ?av"
    and result: "autoDetectRuntime both_host NewRuntimeDetector = Runtime (?av ! i)"
    and highest: "\<forall>j < length ?av. verifySocketConnection both_host (?av ! j)
        \<longrightarrow> Score (?av ! j) \<le> Score (?av ! i)"
    by blast
  from highest [rule_format, of 0] both_host_verify(1) have "95 \<le> Score (?av ! i)"
    by (simp add: both_host_scan)
  with i have "i = 0"
    by (cases i) (simp_all add: both_host_scan)
  with result have "autoDetectRuntime both_host NewRuntimeDetector = RuntimePodman"
    by (simp add: both_host_scan)
  with custom show ?thesis
    by (simp add: both_host_scan both_host_sockets)
qed

text \<open>Without the restriction to the table the statement fails: on the bare host, where no path
  exists, a configured custom socket is a detected candidate all the same.\<close>

theorem custom_socket_is_not_tested:
  "customSocket (SetCustomSocket ''/nonexistent/podman.sock'' NewRuntimeDetector)
     = ''/nonexistent/podman.sock''
   \<and> detectRuntimeSockets bare_host (SetCustomSocket ''/nonexistent/podman.sock'' NewRuntimeDetector)
     = [\<lparr>Path = ''/nonexistent/podman.sock'', Runtime = RuntimePodman, Score = 100\<rparr>]
   \<and> lstat bare_host ''/nonexistent/podman.sock'' = None
   \<and> expand_env bare_host ''/nonexistent/podman.sock'' = ''/nonexistent/podman.sock''
   \<and> \<not> socketExists bare_host ''/nonexistent/podman.sock''"
proof -
  have "guessRuntimeFromSocket bare_host ''/nonexistent/podman.sock'' = RuntimePodman"
    by code_simp
  then show ?thesis
    by (simp add: detectRuntimeSockets_def SetCustomSocket_def NewRuntimeDetector_def
        socketExists_def bare_host_def expand_unset_def)
qed
subsection \<open>The socket of a runtime\<close>







end
